theory Spec2Isabelle
  imports Complex_Main "HOL-Library.Monad_Syntax"
begin

section \<open>Python values used by the checker\<close>

text \<open>
  A Python \<open>float\<close> is an IEEE 754 double: a finite one is modelled by the real it
  denotes, next to the three special values \<open>inf\<close>, \<open>-inf\<close> and \<open>nan\<close>. Every
  operation that rounds in Python rounds here, to the nearest double with ties to
  the even significand. The sign of zero is not kept. Python \<open>str\<close> is modelled as
  \<open>string\<close> restricted to ASCII.
\<close>

datatype pyfloat = Fin real | PInf | NInf | NaN

fun pf_neg :: "pyfloat \<Rightarrow> pyfloat" where
  "pf_neg (Fin x) = Fin (- x)"
| "pf_neg PInf = NInf"
| "pf_neg NInf = PInf"
| "pf_neg NaN = NaN"

subsection \<open>Rounding to a double\<close>

text \<open>The number of binary digits of a natural number, \<open>int.bit_length\<close>.\<close>

fun bit_length :: "nat \<Rightarrow> nat" where
  "bit_length n = (if n = 0 then 0 else Suc (bit_length (n div 2)))"

declare bit_length.simps [simp del]

definition pow2 :: "int \<Rightarrow> real" where
  "pow2 e = (if 0 \<le> e then 2 ^ nat e else 1 / 2 ^ nat (- e))"

text \<open>For positive \<open>x\<close>, the exponent \<open>e\<close> with \<open>2 ^ e \<le> x < 2 ^ (e + 1)\<close>.\<close>

definition floor_log2 :: "real \<Rightarrow> int" where
  "floor_log2 x =
     (if 1 \<le> x then int (bit_length (nat \<lfloor>x\<rfloor>)) - 1
      else - int (bit_length (nat (\<lceil>1 / x\<rceil> - 1))))"

definition round_half_even :: "real \<Rightarrow> int" where
  "round_half_even y =
     (if y - of_int \<lfloor>y\<rfloor> < 1 / 2 then \<lfloor>y\<rfloor>
      else if 1 / 2 < y - of_int \<lfloor>y\<rfloor> then \<lfloor>y\<rfloor> + 1
      else if even \<lfloor>y\<rfloor> then \<lfloor>y\<rfloor> else \<lfloor>y\<rfloor> + 1)"

text \<open>
  The double nearest to a real: 53 significant bits, exponents from -1022 (below
  which the spacing stays that of the subnormals) to 1023, and infinity from
  \<open>2 ^ 1024\<close> on.
\<close>

definition round_double :: "real \<Rightarrow> pyfloat" where
  "round_double x =
     (if x = 0 then Fin 0
      else (let e = max (floor_log2 \<bar>x\<bar>) (- 1022);
                q = pow2 (e - 52);
                r = of_int (round_half_even (x / q)) * q
            in if pow2 1024 \<le> \<bar>r\<bar> then (if x < 0 then NInf else PInf) else Fin r))"

subsection \<open>Arithmetic\<close>

fun pf_sub :: "pyfloat \<Rightarrow> pyfloat \<Rightarrow> pyfloat" where
  "pf_sub (Fin x) (Fin y) = round_double (x - y)"
| "pf_sub NaN _ = NaN"
| "pf_sub _ NaN = NaN"
| "pf_sub PInf PInf = NaN"
| "pf_sub NInf NInf = NaN"
| "pf_sub PInf _ = PInf"
| "pf_sub NInf _ = NInf"
| "pf_sub (Fin x) PInf = NInf"
| "pf_sub (Fin x) NInf = PInf"

fun pf_abs :: "pyfloat \<Rightarrow> pyfloat" where
  "pf_abs (Fin x) = Fin \<bar>x\<bar>"
| "pf_abs PInf = PInf"
| "pf_abs NInf = PInf"
| "pf_abs NaN = NaN"

fun pf_le :: "pyfloat \<Rightarrow> pyfloat \<Rightarrow> bool" where
  "pf_le (Fin x) (Fin y) = (x \<le> y)"
| "pf_le NaN _ = False"
| "pf_le _ NaN = False"
| "pf_le NInf _ = True"
| "pf_le _ PInf = True"
| "pf_le PInf _ = False"
| "pf_le (Fin x) NInf = False"

subsection \<open>Characters and whitespace\<close>

definition is_digit :: "char \<Rightarrow> bool" where
  "is_digit c = (c \<in> set ''0123456789'')"

definition digit_val :: "char \<Rightarrow> nat" where
  "digit_val c = of_char c - 48"

text \<open>Whitespace skipped by \<open>float()\<close> and \<open>int()\<close> around an ASCII literal.\<close>

definition c_isspace :: "char \<Rightarrow> bool" where
  "c_isspace c = (c \<in> set [CHR 0x20, CHR 0x09, CHR 0x0A, CHR 0x0B, CHR 0x0C, CHR 0x0D])"

text \<open>Whitespace removed by \<open>str.strip()\<close>: the above and the four ASCII separators.\<close>

definition py_isspace :: "char \<Rightarrow> bool" where
  "py_isspace c = (c_isspace c \<or> c \<in> set [CHR 0x1C, CHR 0x1D, CHR 0x1E, CHR 0x1F])"

definition strip_with :: "(char \<Rightarrow> bool) \<Rightarrow> string \<Rightarrow> string" where
  "strip_with p s = rev (dropWhile p (rev (dropWhile p s)))"

definition strip :: "string \<Rightarrow> string" where
  "strip s = strip_with py_isspace s"

definition lower_char :: "char \<Rightarrow> char" where
  "lower_char c =
     (case map_of (zip ''ABCDEFGHIJKLMNOPQRSTUVWXYZ'' ''abcdefghijklmnopqrstuvwxyz'') c of
        Some l \<Rightarrow> l
      | None \<Rightarrow> c)"

definition startswith :: "string \<Rightarrow> string \<Rightarrow> bool" where
  "startswith s p = (take (length p) s = p)"

text \<open>\<open>p in s\<close> for strings: \<open>p\<close> occurs as a contiguous run of \<open>s\<close>.\<close>

fun contains :: "string \<Rightarrow> string \<Rightarrow> bool" where
  "contains [] p = (p = [])"
| "contains (c # cs) p = (startswith (c # cs) p \<or> contains cs p)"

text \<open>\<open>s.split(sep)\<close> with a one-character separator.\<close>

fun split_on :: "char \<Rightarrow> string \<Rightarrow> string list" where
  "split_on sep [] = [[]]"
| "split_on sep (c # cs) =
     (if c = sep then [] # split_on sep cs
      else (case split_on sep cs of
              [] \<Rightarrow> [[c]]
            | p # ps \<Rightarrow> (c # p) # ps))"

subsection \<open>Numeric literals: \<open>float(str)\<close> and \<open>int(str)\<close>\<close>

text \<open>
  A digit part is a digit followed by digits, each optionally preceded by one
  underscore.
\<close>

fun digitpart_ok :: "string \<Rightarrow> bool" where
  "digitpart_ok [] = False"
| "digitpart_ok [c] = is_digit c"
| "digitpart_ok (c # d # r) =
     (is_digit c \<and> (if d = CHR ''_'' then digitpart_ok r else digitpart_ok (d # r)))"

definition nat_of_digits :: "string \<Rightarrow> nat" where
  "nat_of_digits s = foldl (\<lambda>a c. 10 * a + digit_val c) 0 (filter is_digit s)"

definition count_digits :: "string \<Rightarrow> nat" where
  "count_digits s = length (filter is_digit s)"

definition split_sign :: "string \<Rightarrow> bool \<times> string" where
  "split_sign s =
     (case s of
        [] \<Rightarrow> (False, [])
      | c # r \<Rightarrow> if c = CHR ''-'' then (True, r)
                 else if c = CHR ''+'' then (False, r) else (False, s))"

text \<open>Splits at the first character satisfying \<open>p\<close>; the second part is absent when
  no character does.\<close>

definition split_first :: "(char \<Rightarrow> bool) \<Rightarrow> string \<Rightarrow> string \<times> string option" where
  "split_first p s =
     (case dropWhile (\<lambda>c. \<not> p c) s of
        [] \<Rightarrow> (s, None)
      | _ # r \<Rightarrow> (takeWhile (\<lambda>c. \<not> p c) s, Some r))"

definition parse_exponent :: "string \<Rightarrow> int option" where
  "parse_exponent s =
     (let (neg, ds) = split_sign s in
      if digitpart_ok ds
      then Some (if neg then - int (nat_of_digits ds) else int (nat_of_digits ds))
      else None)"

definition parse_mantissa :: "string \<Rightarrow> real option" where
  "parse_mantissa s =
     (case split_first (\<lambda>c. c = CHR ''.'') s of
        (ip, None) \<Rightarrow> if digitpart_ok ip then Some (real (nat_of_digits ip)) else None
      | (ip, Some fp) \<Rightarrow>
          if (digitpart_ok ip \<and> (fp = [] \<or> digitpart_ok fp)) \<or> (ip = [] \<and> digitpart_ok fp)
          then Some (real (nat_of_digits ip) + real (nat_of_digits fp) / 10 ^ count_digits fp)
          else None)"

definition scale10 :: "real \<Rightarrow> int \<Rightarrow> real" where
  "scale10 v e = (if 0 \<le> e then v * 10 ^ nat e else v / 10 ^ nat (- e))"

definition parse_floatnumber :: "string \<Rightarrow> real option" where
  "parse_floatnumber s =
     (case split_first (\<lambda>c. c = CHR ''e'' \<or> c = CHR ''E'') s of
        (m, None) \<Rightarrow> parse_mantissa m
      | (m, Some ex) \<Rightarrow>
          (case parse_mantissa m of
             None \<Rightarrow> None
           | Some v \<Rightarrow> (case parse_exponent ex of None \<Rightarrow> None | Some e \<Rightarrow> Some (scale10 v e))))"

text \<open>
  \<open>float(s)\<close> on a string: the double nearest to the number written; \<open>None\<close> stands
  for the \<open>ValueError\<close> it raises.
\<close>

definition py_float :: "string \<Rightarrow> pyfloat option" where
  "py_float s =
     (let (neg, body) = split_sign (strip_with c_isspace s);
          low = map lower_char body
      in if low = ''inf'' \<or> low = ''infinity'' then Some (if neg then NInf else PInf)
         else if low = ''nan'' then Some NaN
         else (case parse_floatnumber body of
                 None \<Rightarrow> None
               | Some v \<Rightarrow> Some (round_double (if neg then - v else v))))"

text \<open>\<open>int(s)\<close> on a string in base ten; \<open>None\<close> stands for the \<open>ValueError\<close>.\<close>

definition py_int :: "string \<Rightarrow> int option" where
  "py_int s =
     (let (neg, body) = split_sign (strip_with c_isspace s)
      in if digitpart_ok body
         then Some (if neg then - int (nat_of_digits body) else int (nat_of_digits body))
         else None)"

section \<open>Calendar dates and wall-clock times\<close>

record date =
  year :: nat
  month :: nat
  day :: nat

record time_of_day =
  hour :: nat
  minute :: nat
  second :: nat
  microsecond :: nat

record datetime =
  dt_date :: date
  dt_time :: time_of_day

definition is_leap :: "nat \<Rightarrow> bool" where
  "is_leap y = (y mod 4 = 0 \<and> (y mod 100 \<noteq> 0 \<or> y mod 400 = 0))"

definition days_in_month :: "nat \<Rightarrow> nat \<Rightarrow> nat" where
  "days_in_month y m =
     (if m = 2 \<and> is_leap y then 29
      else [31, 28, 31, 30, 31, 30, 31, 31, 30, 31, 30, 31] ! (m - 1))"

definition days_before_year :: "nat \<Rightarrow> nat" where
  "days_before_year y = (y - 1) * 365 + (y - 1) div 4 - (y - 1) div 100 + (y - 1) div 400"

definition days_before_month :: "nat \<Rightarrow> nat \<Rightarrow> nat" where
  "days_before_month y m =
     [0, 31, 59, 90, 120, 151, 181, 212, 243, 273, 304, 334] ! (m - 1)
       + (if 2 < m \<and> is_leap y then 1 else 0)"

definition toordinal :: "date \<Rightarrow> nat" where
  "toordinal d = days_before_year (year d) + days_before_month (year d) (month d) + day d"

text \<open>\<open>date.weekday()\<close>: Monday is 0, Sunday is 6.\<close>

definition weekday :: "date \<Rightarrow> nat" where
  "weekday d = (toordinal d + 6) mod 7"

text \<open>Dates compare as the triple year, month, day.\<close>

definition date_less :: "date \<Rightarrow> date \<Rightarrow> bool" where
  "date_less a b =
     (year a < year b \<or> (year a = year b \<and>
        (month a < month b \<or> (month a = month b \<and> day a < day b))))"

text \<open>Times compare as the tuple hour, minute, second, microsecond.\<close>

definition time_le :: "time_of_day \<Rightarrow> time_of_day \<Rightarrow> bool" where
  "time_le a b =
     (hour a < hour b \<or> (hour a = hour b \<and>
        (minute a < minute b \<or> (minute a = minute b \<and>
           (second a < second b \<or> (second a = second b \<and> microsecond a \<le> microsecond b))))))"

definition hm :: "nat \<Rightarrow> nat \<Rightarrow> time_of_day" where
  "hm h m = \<lparr>hour = h, minute = m, second = 0, microsecond = 0\<rparr>"

subsection \<open>\<open>datetime.strptime(s, '%Y-%m-%d')\<close>\<close>

text \<open>
  The format compiles to the pattern
  \<open>(\d\d\d\d)-(1[0-2]|0[1-9]|[1-9])-(3[0-1]|[1-2]\d|0[1-9]|[1-9]| [1-9])\<close>,
  matched at the start of the text; text left over, a year outside \<open>1..9999\<close> and
  a day that the month does not have are each a \<open>ValueError\<close>, here \<open>None\<close>.
\<close>

definition nonzero_digit :: "char \<Rightarrow> bool" where
  "nonzero_digit c = (c \<in> set ''123456789'')"

definition match_year :: "string \<Rightarrow> (nat \<times> string) option" where
  "match_year s =
     (if 4 \<le> length s \<and> list_all is_digit (take 4 s)
      then Some (nat_of_digits (take 4 s), drop 4 s) else None)"

fun match_month :: "string \<Rightarrow> (nat \<times> string) option" where
  "match_month (c1 # c2 # r) =
     (if c1 = CHR ''1'' \<and> c2 \<in> set ''012'' then Some (10 + digit_val c2, r)
      else if c1 = CHR ''0'' \<and> nonzero_digit c2 then Some (digit_val c2, r)
      else if nonzero_digit c1 then Some (digit_val c1, c2 # r)
      else None)"
| "match_month [c1] = (if nonzero_digit c1 then Some (digit_val c1, []) else None)"
| "match_month [] = None"

fun match_day :: "string \<Rightarrow> (nat \<times> string) option" where
  "match_day (c1 # c2 # r) =
     (if c1 = CHR ''3'' \<and> c2 \<in> set ''01'' then Some (30 + digit_val c2, r)
      else if c1 \<in> set ''12'' \<and> is_digit c2 then Some (10 * digit_val c1 + digit_val c2, r)
      else if c1 = CHR ''0'' \<and> nonzero_digit c2 then Some (digit_val c2, r)
      else if nonzero_digit c1 then Some (digit_val c1, c2 # r)
      else if c1 = CHR 0x20 \<and> nonzero_digit c2 then Some (digit_val c2, r)
      else None)"
| "match_day [c1] = (if nonzero_digit c1 then Some (digit_val c1, []) else None)"
| "match_day [] = None"

definition match_dash :: "string \<Rightarrow> string option" where
  "match_dash s = (case s of [] \<Rightarrow> None | c # r \<Rightarrow> if c = CHR ''-'' then Some r else None)"

definition strptime_ymd :: "string \<Rightarrow> date option" where
  "strptime_ymd s =
     do {
       (y, r1) \<leftarrow> match_year s;
       r2 \<leftarrow> match_dash r1;
       (m, r3) \<leftarrow> match_month r2;
       r4 \<leftarrow> match_dash r3;
       (d, r5) \<leftarrow> match_day r4;
       if r5 = [] \<and> 1 \<le> y \<and> d \<le> days_in_month y m
       then Some \<lparr>year = y, month = m, day = d\<rparr>
       else None
     }"

subsection \<open>\<open>strftime('%Y-%m-%d')\<close>\<close>

definition digit_char :: "nat \<Rightarrow> char" where
  "digit_char n = ''0123456789'' ! (n mod 10)"

definition pad2 :: "nat \<Rightarrow> string" where
  "pad2 n = [digit_char (n div 10), digit_char n]"

definition pad4 :: "nat \<Rightarrow> string" where
  "pad4 n = [digit_char (n div 1000), digit_char (n div 100), digit_char (n div 10), digit_char n]"

text \<open>Years are written with four digits, as for every year from 1000 on.\<close>

definition strftime_ymd :: "date \<Rightarrow> string" where
  "strftime_ymd d = pad4 (year d) @ ''-'' @ pad2 (month d) @ ''-'' @ pad2 (day d)"

section \<open>The exchange report checker (TAQ\_Checker\_ShenzhenReal.py)\<close>

subsection \<open>Ambient clock\<close>

text \<open>
  \<open>today\<close> is the local date read by \<open>date.today()\<close> and \<open>datetime.now()\<close>;
  \<open>now_beijing\<close> is \<open>datetime.now(timezone(timedelta(hours=8)))\<close>, absent when the
  attempt to read or compare it raised.
\<close>

record clock =
  today :: date
  now_beijing :: "datetime option"

subsection \<open>Trading calendar\<close>

text \<open>The body of the \<open>try\<close> in \<open>is_weekend\<close>; \<open>None\<close> is the \<open>ValueError\<close>.\<close>

definition is_weekend_try :: "string \<Rightarrow> bool option" where
  "is_weekend_try target_date =
     (case strptime_ymd target_date of
        None \<Rightarrow> None
      | Some date_obj \<Rightarrow> Some (5 \<le> weekday date_obj))"

definition is_weekend :: "string \<Rightarrow> bool" where
  "is_weekend target_date =
     (case is_weekend_try target_date of
        Some b \<Rightarrow> b
      | None \<Rightarrow> False)"

definition is_market_open_now :: "clock \<Rightarrow> bool" where
  "is_market_open_now clk =
     (case now_beijing clk of
        None \<Rightarrow> True
      | Some now \<Rightarrow>
          if 5 \<le> weekday (dt_date now) then False
          else (let current_time = dt_time now;
                    is_morning_session =
                      (time_le (hm 9 30) current_time \<and> time_le current_time (hm 11 30));
                    is_afternoon_session =
                      (time_le (hm 13 0) current_time \<and> time_le current_time (hm 15 0))
                in is_morning_session \<or> is_afternoon_session))"

subsection \<open>Session resolver\<close>

datatype mode = invalid | market_closed_now | current | market_closed_weekend | historical

text \<open>The body of the \<open>try\<close> in \<open>get_date_mode\<close>; \<open>None\<close> is the \<open>ValueError\<close>.\<close>

definition get_date_mode_try :: "clock \<Rightarrow> string \<Rightarrow> (mode \<times> string) option" where
  "get_date_mode_try clk target_date =
     (case strptime_ymd target_date of
        None \<Rightarrow> None
      | Some target_dt \<Rightarrow>
          Some (if date_less (today clk) target_dt then (invalid, target_date)
                else if target_dt = today clk then
                  (if \<not> is_market_open_now clk then (market_closed_now, target_date)
                   else (current, target_date))
                else
                  (if is_weekend target_date then (market_closed_weekend, target_date)
                   else (historical, target_date))))"

definition get_date_mode :: "clock \<Rightarrow> string option \<Rightarrow> mode \<times> string" where
  "get_date_mode clk target_date =
     (case target_date of
        None \<Rightarrow>
          (let current_date = strftime_ymd (today clk) in
           if \<not> is_market_open_now clk then (market_closed_now, current_date)
           else (current, current_date))
      | Some td \<Rightarrow>
          (case get_date_mode_try clk td of
             Some r \<Rightarrow> r
           | None \<Rightarrow> (invalid, td)))"

subsection \<open>Decoded JSON\<close>

text \<open>
  The value \<open>response.json()\<close> returns. A JSON object is a Python \<open>dict\<close>: an
  association list with distinct keys in insertion order. JSON numbers are Python
  numbers; \<open>JNull\<close> is \<open>None\<close>.
\<close>

datatype json =
    JNull
  | JBool bool
  | JNum pyfloat
  | JStr string
  | JArr "json list"
  | JObj "(string \<times> json) list"

text \<open>Python truth value of a decoded JSON value.\<close>

fun truthy :: "json \<Rightarrow> bool" where
  "truthy JNull = False"
| "truthy (JBool b) = b"
| "truthy (JNum x) = (x \<noteq> Fin 0)"
| "truthy (JStr s) = (s \<noteq> [])"
| "truthy (JArr xs) = (xs \<noteq> [])"
| "truthy (JObj kvs) = (kvs \<noteq> [])"

definition has_key :: "(string \<times> json) list \<Rightarrow> string \<Rightarrow> bool" where
  "has_key d k = (map_of d k \<noteq> None)"

text \<open>\<open>d.get(k, dflt)\<close>.\<close>

definition dict_get :: "(string \<times> json) list \<Rightarrow> string \<Rightarrow> json \<Rightarrow> json" where
  "dict_get d k dflt = (case map_of d k of Some v \<Rightarrow> v | None \<Rightarrow> dflt)"

subsection \<open>Network\<close>

record request =
  url :: string
  params :: "(string \<times> string) list"

text \<open>
  The outcome of one \<open>session.get\<close> followed by \<open>raise_for_status\<close> and
  \<open>response.json()\<close>: a transport or status failure, a body that is not JSON, or the
  decoded body.
\<close>

datatype http_response = RequestFailed | NotJson | JsonBody json

type_synonym network = "request \<Rightarrow> http_response"

definition historical_url :: string where
  "historical_url = ''https://www.szse.cn/api/report/ShowReport/data''"

definition current_url :: string where
  "current_url = ''https://www.szse.cn/api/market/ssjjhq/getTimeData''"

text \<open>\<open>s.zfill(width)\<close>: zeros go after a leading sign.\<close>

definition zfill :: "nat \<Rightarrow> string \<Rightarrow> string" where
  "zfill width s =
     (if width \<le> length s then s
      else (case s of
              [] \<Rightarrow> replicate width (CHR ''0'')
            | c # r \<Rightarrow>
                if c = CHR ''+'' \<or> c = CHR ''-''
                then c # replicate (width - length s) (CHR ''0'') @ r
                else replicate (width - length s) (CHR ''0'') @ s))"

definition pad_ticker :: "string \<Rightarrow> string" where
  "pad_ticker symbol = zfill 6 symbol"

subsection \<open>Decoded quotes and results\<close>

record stock_data =
  symbol :: string
  name :: json
  open_price :: pyfloat
  data_type :: string

text \<open>
  The dictionary \<open>get_stock_data\<close> returns: the quote with the keys it adds. The key
  \<open>market_status\<close> exists only in a market-closed result.
\<close>

record checked_data = stock_data +
  expected_open :: "pyfloat option"
  match_status :: string
  market_status :: "string option"

definition create_market_closed_result ::
    "string \<Rightarrow> pyfloat option \<Rightarrow> string \<Rightarrow> checked_data" where
  "create_market_closed_result ticker expected reason =
     \<lparr>symbol = ticker, name = JStr ''N/A'', open_price = Fin 0, data_type = reason,
      expected_open = expected, match_status = ''MARKET CLOSED'',
      market_status = Some reason\<rparr>"

subsection \<open>Current-mode decoder\<close>

text \<open>\<open>float(v)\<close> on a decoded JSON value; \<open>None\<close> is the exception it raises.\<close>

definition float_of_json :: "json \<Rightarrow> pyfloat option" where
  "float_of_json v =
     (case v of
        JNum x \<Rightarrow> Some x
      | JStr s \<Rightarrow> py_float s
      | JBool b \<Rightarrow> Some (Fin (if b then 1 else 0))
      | _ \<Rightarrow> None)"

text \<open>\<open>None\<close> is the \<open>None\<close> returned from the \<open>except\<close> branch.\<close>

definition parse_current_data :: "json \<Rightarrow> string \<Rightarrow> stock_data option" where
  "parse_current_data api_data ticker =
     (case api_data of
        JObj d \<Rightarrow>
          (case float_of_json (dict_get d ''open'' (dict_get d ''openPrice'' (JNum (Fin 0)))) of
             None \<Rightarrow> None
           | Some v \<Rightarrow>
               Some \<lparr>symbol = ticker,
                     name = dict_get d ''stockname'' (dict_get d ''name'' (JStr ''N/A'')),
                     open_price = v,
                     data_type = ''current''\<rparr>)
      | _ \<Rightarrow> None)"

definition container_keys :: "string list" where
  "container_keys = [''data'', ''result'', ''rows'', ''items'', ''records'']"

text \<open>The loop over the known container keys; \<open>JNull\<close> when none holds a true value.\<close>

fun first_known_key :: "(string \<times> json) list \<Rightarrow> string list \<Rightarrow> json" where
  "first_known_key d [] = JNull"
| "first_known_key d (key # keys) =
     (case map_of d key of
        None \<Rightarrow> first_known_key d keys
      | Some v \<Rightarrow> if truthy v then v else first_known_key d keys)"

text \<open>The loop over \<open>data.items()\<close> that takes the first non-empty value.\<close>

fun first_nonempty_value :: "(string \<times> json) list \<Rightarrow> json" where
  "first_nonempty_value [] = JNull"
| "first_nonempty_value ((key, v) # rest) =
     (if truthy v \<and> v \<noteq> JArr [] \<and> v \<noteq> JObj [] then v else first_nonempty_value rest)"

definition dict_data_content :: "(string \<times> json) list \<Rightarrow> json" where
  "dict_data_content d =
     (let data_content = first_known_key d container_keys
      in if data_content = JNull then first_nonempty_value d else data_content)"

definition current_request :: "string \<Rightarrow> request" where
  "current_request ticker =
     \<lparr>url = current_url,
      params = [(''random'', ''0.123456''), (''marketId'', ''1''),
                (''code'', pad_ticker ticker), (''language'', ''EN'')]\<rparr>"

text \<open>Returns the requests issued and the decoded quote, if any.\<close>

definition fetch_current_data :: "network \<Rightarrow> string \<Rightarrow> request list \<times> stock_data option" where
  "fetch_current_data net ticker =
     ([current_request ticker],
      (case net (current_request ticker) of
         RequestFailed \<Rightarrow> None
       | NotJson \<Rightarrow> None
       | JsonBody data \<Rightarrow>
           (let data_content = (case data of JObj d \<Rightarrow> dict_data_content d | _ \<Rightarrow> JNull)
            in if truthy data_content then parse_current_data data_content ticker else None)))"

subsection \<open>Historical-mode decoder\<close>

definition name_fields :: "string list" where
  "name_fields = [''zqjc'', ''stockname'', ''name'', ''gsjc'', ''mc'']"

definition open_fields :: "string list" where
  "open_fields = [''ks'', ''kpjg'', ''open'', ''kaiPanJia'']"

definition comma_free :: "string \<Rightarrow> string" where
  "comma_free s = filter (\<lambda>c. c \<noteq> CHR '','') s"

text \<open>
  A number, boolean, list or dictionary is first rendered by \<open>str\<close>: the text of a
  number reads back as that number, the other renderings are never numeric literals.
\<close>

definition safe_float_conversion :: "json \<Rightarrow> pyfloat \<Rightarrow> pyfloat" where
  "safe_float_conversion v dflt =
     (case v of
        JNull \<Rightarrow> dflt
      | JStr s \<Rightarrow>
          if s = [] \<or> s = ''-'' then dflt
          else (case py_float (strip (comma_free s)) of
                  Some x \<Rightarrow> x
                | None \<Rightarrow> dflt)
      | JNum x \<Rightarrow> x
      | _ \<Rightarrow> dflt)"

definition blank_string :: "json \<Rightarrow> bool" where
  "blank_string v = (case v of JStr s \<Rightarrow> strip s = [] | _ \<Rightarrow> False)"

text \<open>The loop of \<open>get_field_value\<close> over a dictionary record: the value it stops at.\<close>

fun find_field :: "(string \<times> json) list \<Rightarrow> string list \<Rightarrow> json option" where
  "find_field d [] = None"
| "find_field d (field_name # rest) =
     (case map_of d field_name of
        None \<Rightarrow> find_field d rest
      | Some v \<Rightarrow>
          if v = JNull then find_field d rest
          else if blank_string v then find_field d rest
          else Some v)"

definition get_field_value_numeric :: "(string \<times> json) list \<Rightarrow> string list \<Rightarrow> pyfloat \<Rightarrow> pyfloat" where
  "get_field_value_numeric d field_names dflt =
     (case find_field d field_names of
        Some v \<Rightarrow> safe_float_conversion v dflt
      | None \<Rightarrow> dflt)"

definition get_field_value_raw :: "(string \<times> json) list \<Rightarrow> string list \<Rightarrow> json \<Rightarrow> json" where
  "get_field_value_raw d field_names dflt =
     (case find_field d field_names of
        Some v \<Rightarrow> v
      | None \<Rightarrow> dflt)"

text \<open>
  The record is usually a dictionary. On a string \<open>field_name in data_record\<close> is a
  substring test and on a list a membership test; when one succeeds the subscript
  that follows raises. On a number or a boolean the test itself raises.
\<close>

definition extract_fields :: "json \<Rightarrow> string \<Rightarrow> stock_data option" where
  "extract_fields data_record ticker =
     (case data_record of
        JObj d \<Rightarrow>
          Some \<lparr>symbol = ticker,
                name = get_field_value_raw d name_fields (JStr ''N/A''),
                open_price = get_field_value_numeric d open_fields (Fin 0),
                data_type = ''historical''\<rparr>
      | JStr s \<Rightarrow>
          if list_ex (\<lambda>f. contains s f) (name_fields @ open_fields) then None
          else Some \<lparr>symbol = ticker, name = JStr ''N/A'', open_price = Fin 0,
                     data_type = ''historical''\<rparr>
      | JArr xs \<Rightarrow>
          if list_ex (\<lambda>f. JStr f \<in> set xs) (name_fields @ open_fields) then None
          else Some \<lparr>symbol = ticker, name = JStr ''N/A'', open_price = Fin 0,
                     data_type = ''historical''\<rparr>
      | _ \<Rightarrow> None)"

definition parse_historical_data :: "json \<Rightarrow> string \<Rightarrow> string \<Rightarrow> stock_data option" where
  "parse_historical_data api_data ticker target_date =
     (case api_data of
        JArr xs \<Rightarrow>
          (case xs of
             [] \<Rightarrow> None
           | data_record # _ \<Rightarrow>
               if \<not> truthy data_record then None else extract_fields data_record ticker)
      | JObj d \<Rightarrow>
          if \<not> truthy api_data then None else extract_fields api_data ticker
      | _ \<Rightarrow> None)"

definition stock_keys :: "string list" where
  "stock_keys = [''zqdm'', ''stockcode'', ''code'', ''zqjc'', ''stockname'']"

text \<open>The first loop over an array response.\<close>

fun scan_elements :: "json list \<Rightarrow> json" where
  "scan_elements [] = JNull"
| "scan_elements (item # rest) =
     (case item of
        JObj d \<Rightarrow>
          if has_key d ''metadata'' then scan_elements rest
          else if has_key d ''data'' \<or> 3 < length d then dict_get d ''data'' item
          else if list_ex (has_key d) stock_keys then item
          else scan_elements rest
      | _ \<Rightarrow> scan_elements rest)"

text \<open>The second loop: an element whose \<open>data\<close> is a list of records.\<close>

fun scan_data_arrays :: "json list \<Rightarrow> json" where
  "scan_data_arrays [] = JNull"
| "scan_data_arrays (item # rest) =
     (case item of
        JObj d \<Rightarrow>
          (case map_of d ''data'' of
             Some (JArr xs) \<Rightarrow> JArr xs
           | _ \<Rightarrow> scan_data_arrays rest)
      | _ \<Rightarrow> scan_data_arrays rest)"

text \<open>The final fallback over \<open>data[1:]\<close>.\<close>

fun first_rich_element :: "json list \<Rightarrow> json" where
  "first_rich_element [] = JNull"
| "first_rich_element (item # rest) =
     (case item of
        JObj d \<Rightarrow> if 1 < length d then item else first_rich_element rest
      | _ \<Rightarrow> first_rich_element rest)"

definition historical_data_content :: "json \<Rightarrow> json" where
  "historical_data_content data =
     (let data_content =
            (case data of
               JArr items \<Rightarrow>
                 (let dc = scan_elements items
                  in if dc = JNull then scan_data_arrays items else dc)
             | JObj d \<Rightarrow> dict_data_content d
             | _ \<Rightarrow> JNull)
      in if data_content = JNull then
           (case data of
              JArr items \<Rightarrow> if 1 < length items then first_rich_element (tl items) else JNull
            | _ \<Rightarrow> JNull)
         else data_content)"

definition historical_request :: "string \<Rightarrow> string \<Rightarrow> request" where
  "historical_request ticker target_date =
     \<lparr>url = historical_url,
      params = [(''SHOWTYPE'', ''JSON''), (''CATALOGID'', ''1394_stock_snapshot''),
                (''TABKEY'', ''tab1''), (''txtDMorJC'', pad_ticker ticker),
                (''txtDate'', target_date), (''archiveDate'', target_date),
                (''random'', ''0.123456'')]\<rparr>"

definition fetch_historical_data ::
    "network \<Rightarrow> string \<Rightarrow> string \<Rightarrow> request list \<times> stock_data option" where
  "fetch_historical_data net ticker target_date =
     ([historical_request ticker target_date],
      (case net (historical_request ticker target_date) of
         RequestFailed \<Rightarrow> None
       | NotJson \<Rightarrow> None
       | JsonBody data \<Rightarrow>
           (let data_content = historical_data_content data
            in if truthy data_content then parse_historical_data data_content ticker target_date
               else None)))"

subsection \<open>Orchestrator and reconciliation\<close>

text \<open>The literal \<open>0.01\<close>.\<close>

definition tolerance :: pyfloat where
  "tolerance = round_double (1 / 100)"

definition matching_status :: "pyfloat \<Rightarrow> pyfloat option \<Rightarrow> string" where
  "matching_status opn expected =
     (case expected of
        Some e \<Rightarrow>
          if pf_le (pf_abs (pf_sub opn e)) tolerance then ''MATCHED'' else ''NOT MATCHED''
      | None \<Rightarrow> ''NO EXPECTED PRICE'')"

text \<open>Returns the requests issued and the result dictionary, if any.\<close>

definition get_stock_data ::
    "clock \<Rightarrow> network \<Rightarrow> string \<Rightarrow> pyfloat option \<Rightarrow> string option
       \<Rightarrow> request list \<times> checked_data option" where
  "get_stock_data clk net ticker expected target_date =
     (let (mode, date_str) = get_date_mode clk target_date in
      if mode = invalid then ([], None)
      else if mode = market_closed_weekend then
        ([], Some (create_market_closed_result ticker expected ''Weekend - Market Closed''))
      else if mode = market_closed_now then
        ([], Some (create_market_closed_result ticker expected ''Outside Trading Hours''))
      else
        (let (reqs, fetched) =
               (if mode = current then fetch_current_data net ticker
                else fetch_historical_data net ticker date_str)
         in case fetched of
              None \<Rightarrow> (reqs, None)
            | Some sd \<Rightarrow>
                (reqs,
                 Some (stock_data.extend sd
                         (checked_data.fields expected
                            (matching_status (open_price sd) expected) None)))))"

section \<open>The real-time feed clients (Shenzhen\_Real\_Time\_Final.py, Real\_Time\_ShenZhen2.py)\<close>

text \<open>
  Both files hold the same \<open>get_realtime_data\<close>; they differ only in the expected
  data used when the caller passes none.
\<close>

record expected_data =
  sid :: string
  equ_open :: "pyfloat option"

record realtime_data =
  rt_sid :: string
  rt_symbol :: string
  rt_name :: string
  rt_code :: string
  current_price :: pyfloat
  yesterday_close :: pyfloat
  rt_open :: pyfloat
  open_equ_prices :: "pyfloat option"
  volume :: int
  volume_shares :: int
  turnover :: pyfloat
  bid1_price :: pyfloat
  bid1_volume :: int
  ask1_price :: pyfloat
  ask1_volume :: int
  high :: pyfloat
  low :: pyfloat
  change :: pyfloat
  change_percent :: pyfloat
  timestamp :: string
  last_update :: string
  rt_match_status :: string

definition format_symbol :: "string \<Rightarrow> string" where
  "format_symbol s =
     (if startswith s ''300'' \<or> startswith s ''000'' \<or> startswith s ''002'' then ''sz'' @ s
      else if startswith s ''60'' \<or> startswith s ''68'' then ''sh'' @ s
      else ''sz'' @ s)"

definition base_url :: string where
  "base_url = ''http://qt.gtimg.cn/q=''"

text \<open>The outcome of \<open>session.get\<close> and \<open>raise_for_status\<close>: a failure or the body text.\<close>

datatype text_response = TextFailed | TextBody string

definition dquote :: char where
  "dquote = CHR 0x22"

text \<open>
  \<open>re.search\<close> for a double quote, any characters but double quotes, and a double
  quote: the text between the first two double quotes, if there are two.
\<close>

definition first_quoted :: "string \<Rightarrow> string option" where
  "first_quoted s =
     (case dropWhile (\<lambda>c. c \<noteq> dquote) s of
        [] \<Rightarrow> None
      | _ # t \<Rightarrow> if dquote \<in> set t then Some (takeWhile (\<lambda>c. c \<noteq> dquote) t) else None)"

text \<open>\<open>float(x) if x else 0\<close> and \<open>int(x) if x else 0\<close>; \<open>None\<close> is the \<open>ValueError\<close>.\<close>

definition float_field :: "string \<Rightarrow> pyfloat option" where
  "float_field x = (if x \<noteq> [] then py_float x else Some (Fin 0))"

definition int_field :: "string \<Rightarrow> int option" where
  "int_field x = (if x \<noteq> [] then py_int x else Some 0)"

text \<open>\<open>float(parts[i]) if len(parts) > i and parts[i] else 0\<close>.\<close>

definition float_field_at :: "string list \<Rightarrow> nat \<Rightarrow> pyfloat option" where
  "float_field_at parts i =
     (if i < length parts \<and> parts ! i \<noteq> [] then py_float (parts ! i) else Some (Fin 0))"

definition rt_matching_status :: "pyfloat \<Rightarrow> pyfloat option \<Rightarrow> string" where
  "rt_matching_status opn expected =
     (case expected of
        Some e \<Rightarrow>
          if pf_le (pf_abs (pf_sub opn e)) tolerance then ''MATCHED!'' else ''NOT MATCHED!''
      | None \<Rightarrow> ''NO EXPECTED PRICE'')"

text \<open>
  The dictionary built from the split payload, which has at least 30 fields. Any
  conversion that raises ends the whole call in the \<open>except Exception\<close> branch, which
  returns \<open>None\<close>.
\<close>

definition build_stock_data ::
    "string \<Rightarrow> expected_data \<Rightarrow> string \<Rightarrow> string list \<Rightarrow> realtime_data option" where
  "build_stock_data ticker expd now_text data_parts =
     do {
       cur \<leftarrow> float_field (data_parts ! 3);
       ycl \<leftarrow> float_field (data_parts ! 4);
       opn \<leftarrow> float_field (data_parts ! 5);
       vol \<leftarrow> int_field (data_parts ! 6);
       tov \<leftarrow> float_field_at data_parts 37;
       b1p \<leftarrow> float_field (data_parts ! 9);
       b1v \<leftarrow> int_field (data_parts ! 10);
       a1p \<leftarrow> float_field (data_parts ! 19);
       a1v \<leftarrow> int_field (data_parts ! 20);
       hi \<leftarrow> float_field_at data_parts 33;
       lo \<leftarrow> float_field_at data_parts 34;
       chg \<leftarrow> float_field_at data_parts 31;
       pct \<leftarrow> float_field_at data_parts 32;
       Some \<lparr>rt_sid = sid expd,
             rt_symbol = ticker,
             rt_name = data_parts ! 1,
             rt_code = data_parts ! 2,
             current_price = cur,
             yesterday_close = ycl,
             rt_open = opn,
             open_equ_prices = equ_open expd,
             volume = vol,
             volume_shares = vol * 100,
             turnover = tov,
             bid1_price = b1p,
             bid1_volume = b1v,
             ask1_price = a1p,
             ask1_volume = a1v,
             high = hi,
             low = lo,
             change = chg,
             change_percent = pct,
             timestamp = (if 30 < length data_parts then data_parts ! 30 else []),
             last_update = now_text,
             rt_match_status = rt_matching_status opn (equ_open expd)\<rparr>
     }"

text \<open>Decoding of the response text, after the request succeeded.\<close>

definition decode_realtime ::
    "string \<Rightarrow> expected_data \<Rightarrow> string \<Rightarrow> string \<Rightarrow> realtime_data option" where
  "decode_realtime ticker expd now_text response_text =
     (let data_str = strip response_text in
      if data_str = [] \<or> contains data_str ''pv_none_match'' then None
      else (case first_quoted data_str of
              None \<Rightarrow> None
            | Some payload \<Rightarrow>
                (let data_parts = split_on (CHR ''~'') payload in
                 if length data_parts < 30 then None
                 else build_stock_data ticker expd now_text data_parts)))"

text \<open>
  \<open>fallback\<close> gives the expected data used when the caller passes none; \<open>now_text\<close>
  is the formatted time of the call.
\<close>

definition realtime_fetch ::
    "(string \<Rightarrow> expected_data) \<Rightarrow> string \<Rightarrow> (string \<Rightarrow> text_response) \<Rightarrow> string
       \<Rightarrow> expected_data option \<Rightarrow> realtime_data option" where
  "realtime_fetch fallback now_text net ticker expd =
     (case net (base_url @ format_symbol ticker) of
        TextFailed \<Rightarrow> None
      | TextBody response_text \<Rightarrow>
          decode_realtime ticker
            (case expd of Some e \<Rightarrow> e | None \<Rightarrow> fallback ticker)
            now_text response_text)"

text \<open>Shenzhen\_Real\_Time\_Final.py.\<close>

definition get_realtime_data ::
    "string \<Rightarrow> (string \<Rightarrow> text_response) \<Rightarrow> string \<Rightarrow> expected_data option
       \<Rightarrow> realtime_data option" where
  "get_realtime_data =
     realtime_fetch (\<lambda>ticker. \<lparr>sid = ''SID_'' @ ticker, equ_open = None\<rparr>)"

text \<open>Real\_Time\_ShenZhen2.py, where the object keeps a table of expected prices.\<close>

definition get_realtime_data2 ::
    "(string \<times> expected_data) list \<Rightarrow> string \<Rightarrow> (string \<Rightarrow> text_response) \<Rightarrow> string
       \<Rightarrow> expected_data option \<Rightarrow> realtime_data option" where
  "get_realtime_data2 expected_prices =
     realtime_fetch
       (\<lambda>ticker. case map_of expected_prices ticker of
                    Some e \<Rightarrow> e
                  | None \<Rightarrow> \<lparr>sid = ''SID_'' @ ticker, equ_open = None\<rparr>)"

section \<open>Reference notions used in the statements\<close>

text \<open>Microseconds since midnight of a wall-clock time.\<close>

definition usec_of_day :: "time_of_day \<Rightarrow> nat" where
  "usec_of_day t = ((hour t * 60 + minute t) * 60 + second t) * 1000000 + microsecond t"

definition valid_time :: "time_of_day \<Rightarrow> bool" where
  "valid_time t = (hour t < 24 \<and> minute t < 60 \<and> second t < 60 \<and> microsecond t < 1000000)"

text \<open>
  Inside a trading session: Monday to Friday, from 09:30 to 11:30 or from 13:00 to
  15:00, both ends included.
\<close>

definition within_trading_session :: "datetime \<Rightarrow> bool" where
  "within_trading_session now =
     (weekday (dt_date now) < 5 \<and>
      ((34200000000 \<le> usec_of_day (dt_time now) \<and> usec_of_day (dt_time now) \<le> 41400000000) \<or>
       (46800000000 \<le> usec_of_day (dt_time now) \<and> usec_of_day (dt_time now) \<le> 54000000000)))"

text \<open>A real that is a finite double.\<close>

definition is_float :: "real \<Rightarrow> bool" where
  "is_float x = (round_double x = Fin x)"

text \<open>The exact value of the double that the literal \<open>0.01\<close> denotes.\<close>

definition tolerance_value :: real where
  "tolerance_value = 5764607523034235 / 576460752303423488"

text \<open>The positions of the split payload that are converted with \<open>float\<close> and \<open>int\<close>.\<close>

definition float_positions :: "nat list" where
  "float_positions = [3, 4, 5, 9, 19, 31, 32, 33, 34, 37]"

definition int_positions :: "nat list" where
  "int_positions = [6, 10, 20]"

text \<open>
  A key of a record is usable when it is present and its value is neither \<open>None\<close>
  nor a blank string.
\<close>

definition usable_field :: "(string \<times> json) list \<Rightarrow> string \<Rightarrow> bool" where
  "usable_field d k =
     (case map_of d k of
        None \<Rightarrow> False
      | Some v \<Rightarrow> v \<noteq> JNull \<and> \<not> blank_string v)"

text \<open>A positional text field and the number it stands for: zero when empty.\<close>

definition converted_float :: "string \<Rightarrow> pyfloat \<Rightarrow> bool" where
  "converted_float x v = (if x = [] then v = Fin 0 else py_float x = Some v)"

definition converted_int :: "string \<Rightarrow> int \<Rightarrow> bool" where
  "converted_int x v = (if x = [] then v = 0 else py_int x = Some v)"

definition converted_float_at :: "string list \<Rightarrow> nat \<Rightarrow> pyfloat \<Rightarrow> bool" where
  "converted_float_at parts i v =
     (if i < length parts then converted_float (parts ! i) v else v = Fin 0)"

section \<open>Sample inputs\<close>

text \<open>Tuesday 3 November 2026, inside the morning session and in the midday break.\<close>

definition sample_today :: date where
  "sample_today = \<lparr>year = 2026, month = 11, day = 3\<rparr>"

definition sample_open_now :: datetime where
  "sample_open_now =
     \<lparr>dt_date = sample_today,
      dt_time = \<lparr>hour = 10, minute = 15, second = 30, microsecond = 0\<rparr>\<rparr>"

definition sample_closed_now :: datetime where
  "sample_closed_now =
     \<lparr>dt_date = sample_today,
      dt_time = \<lparr>hour = 12, minute = 0, second = 0, microsecond = 0\<rparr>\<rparr>"

definition sample_open_clock :: clock where
  "sample_open_clock = \<lparr>today = sample_today, now_beijing = Some sample_open_now\<rparr>"

definition sample_closed_clock :: clock where
  "sample_closed_clock = \<lparr>today = sample_today, now_beijing = Some sample_closed_now\<rparr>"

definition sample_current_body :: json where
  "sample_current_body =
     JObj [(''data'', JObj [(''stockname'', JStr ''Ping An''), (''open'', JStr ''8.50'')])]"

definition sample_cent_body :: json where
  "sample_cent_body =
     JObj [(''data'', JObj [(''stockname'', JStr ''Ping An''), (''open'', JStr ''1.01'')])]"

definition sample_comma_body :: json where
  "sample_comma_body =
     JObj [(''result'', JObj [(''name'', JStr ''Ping An''), (''openPrice'', JStr ''1,650.00'')])]"

definition sample_metadata :: "(string \<times> json) list" where
  "sample_metadata = [(''metadata'', JObj [(''name'', JStr ''report'')])]"

definition sample_vanke :: "(string \<times> json) list" where
  "sample_vanke = [(''zqjc'', JStr ''Vanke''), (''ks'', JStr ''8.50'')]"

definition sample_vanke_with_data :: "(string \<times> json) list" where
  "sample_vanke_with_data =
     [(''zqjc'', JStr ''Vanke''), (''ks'', JStr ''8.50''), (''data'', JStr ''2026-11-02'')]"

definition sample_vanke_body :: json where
  "sample_vanke_body = JArr [JObj sample_metadata, JObj sample_vanke]"


text \<open>Responses of the real-time feed: the payload sits between double quotes.\<close>

definition quoted_response :: "string \<Rightarrow> string" where
  "quoted_response payload = ''v_sz000001='' @ [dquote] @ payload @ [dquote] @ '';''"

definition sample_bad_price_payload :: string where
  "sample_bad_price_payload = ''1~Ping An~000001~abc~8.45~8.50~100~~~~~~~~~~~~~~~~~~~~~~~''"

definition sample_empty_payload :: string where
  "sample_empty_payload = ''1~Ping An~000001~~~~~~~~~~~~~~~~~~~~~~~~~~~''"

definition sample_short_payload :: string where
  "sample_short_payload = ''1~Ping An~000001~8.50''"

definition sample_now_text :: string where
  "sample_now_text = ''2026-11-03 10:15:30''"

definition sample_expected :: expected_data where
  "sample_expected = \<lparr>sid = ''SID002'', equ_open = Some (Fin (17 / 2))\<rparr>"

definition sample_empty_result :: realtime_data where
  "sample_empty_result =
     \<lparr>rt_sid = ''SID002'', rt_symbol = ''000001'', rt_name = ''Ping An'', rt_code = ''000001'',
      current_price = Fin 0, yesterday_close = Fin 0, rt_open = Fin 0,
      open_equ_prices = Some (Fin (17 / 2)), volume = 0, volume_shares = 0, turnover = Fin 0,
      bid1_price = Fin 0, bid1_volume = 0, ask1_price = Fin 0, ask1_volume = 0,
      high = Fin 0, low = Fin 0, change = Fin 0, change_percent = Fin 0,
      timestamp = [], last_update = sample_now_text,
      rt_match_status = ''NOT MATCHED!''\<rparr>"

section \<open>Properties of the calendar\<close>

lemmas date_eval =
  strptime_ymd_def match_year_def match_dash_def nonzero_digit_def is_digit_def
  digit_val_def nat_of_digits_def days_in_month_def is_leap_def weekday_def toordinal_def
  days_before_year_def days_before_month_def

lemmas round_eval =
  round_double_def round_half_even_def floor_log2_def pow2_def bit_length.simps Let_def

lemmas float_eval =
  py_float_def split_sign_def strip_with_def c_isspace_def lower_char_def
  parse_floatnumber_def parse_exponent_def scale10_def split_first_def parse_mantissa_def
  is_digit_def nat_of_digits_def count_digits_def digit_val_def round_eval

lemma weekday_lt_7: "weekday d < 7"
  by (simp add: weekday_def)

lemma weekend_iff: "(5 \<le> weekday d) = (weekday d = 5 \<or> weekday d = 6)"
  using weekday_lt_7 [of d] by arith

lemma lex_seconds:
  fixes h m s h' m' s' :: nat
  assumes "m < 60" "s < 60" "m' < 60" "s' < 60"
  shows "((h * 60 + m) * 60 + s < (h' * 60 + m') * 60 + s')
         = (h < h' \<or> (h = h' \<and> (m < m' \<or> (m = m' \<and> s < s'))))"
  using assms by auto

lemma lex_usec:
  fixes a u a' u' :: nat
  assumes "u < 1000000" "u' < 1000000"
  shows "(a * 1000000 + u \<le> a' * 1000000 + u') = (a < a' \<or> (a = a' \<and> u \<le> u'))"
  using assms by auto

lemma time_le_usec:
  assumes "valid_time a" and "valid_time b"
  shows "time_le a b = (usec_of_day a \<le> usec_of_day b)"
proof -
  define A where "A = (hour a * 60 + minute a) * 60 + second a"
  define B where "B = (hour b * 60 + minute b) * 60 + second b"
  have bounds: "minute a < 60" "second a < 60" "microsecond a < 1000000"
    "minute b < 60" "second b < 60" "microsecond b < 1000000"
    using assms by (simp_all add: valid_time_def)
  have lt: "(A < B) = (hour a < hour b \<or> (hour a = hour b \<and>
      (minute a < minute b \<or> (minute a = minute b \<and> second a < second b))))"
    unfolding A_def B_def using bounds by (intro lex_seconds) 
  have gt: "(B < A) = (hour b < hour a \<or> (hour b = hour a \<and>
      (minute b < minute a \<or> (minute b = minute a \<and> second b < second a))))"
    unfolding A_def B_def using bounds by (intro lex_seconds)
  have eq: "(A = B) = (hour a = hour b \<and> minute a = minute b \<and> second a = second b)"
    using lt gt by (metis A_def B_def nat_neq_iff)
  have "(usec_of_day a \<le> usec_of_day b) = (A < B \<or> (A = B \<and> microsecond a \<le> microsecond b))"
    unfolding usec_of_day_def A_def [symmetric] B_def [symmetric]
    using bounds by (intro lex_usec)
  then show ?thesis
    unfolding time_le_def lt eq by blast
qed

lemma valid_hm: "h < 24 \<Longrightarrow> m < 60 \<Longrightarrow> valid_time (hm h m)"
  by (simp add: valid_time_def hm_def)

lemma usec_hm: "usec_of_day (hm h m) = (h * 60 + m) * 60 * 1000000"
  by (simp add: usec_of_day_def hm_def)

lemma is_market_open_now_session:
  assumes "now_beijing clk = Some now" and "valid_time (dt_time now)"
  shows "is_market_open_now clk = within_trading_session now"
proof -
  have v: "valid_time (hm 9 30)" "valid_time (hm 11 30)" "valid_time (hm 13 0)" "valid_time (hm 15 0)"
    by (simp_all add: valid_hm)
  have t: "time_le (hm 9 30) (dt_time now) = (34200000000 \<le> usec_of_day (dt_time now))"
    "time_le (dt_time now) (hm 11 30) = (usec_of_day (dt_time now) \<le> 41400000000)"
    "time_le (hm 13 0) (dt_time now) = (46800000000 \<le> usec_of_day (dt_time now))"
    "time_le (dt_time now) (hm 15 0) = (usec_of_day (dt_time now) \<le> 54000000000)"
    using assms(2) v by (simp_all add: time_le_usec usec_hm)
  show ?thesis
    using assms(1) unfolding is_market_open_now_def within_trading_session_def
    by (simp add: t Let_def not_le)
qed

section \<open>Properties of rounding\<close>

lemma floor_neg_int:
  fixes y :: real
  assumes "y = of_int \<lfloor>y\<rfloor>"
  shows "\<lfloor>- y\<rfloor> = - \<lfloor>y\<rfloor>"
proof -
  obtain n :: int where n: "y = of_int n"
    using assms by blast
  show ?thesis
    unfolding n by simp
qed

lemma floor_neg_frac:
  fixes y :: real
  assumes "y \<noteq> of_int \<lfloor>y\<rfloor>"
  shows "\<lfloor>- y\<rfloor> = - \<lfloor>y\<rfloor> - 1"
proof (rule floor_unique)
  have lo: "of_int \<lfloor>y\<rfloor> < y"
    using assms of_int_floor_le [of y] by linarith
  have hi: "y < of_int \<lfloor>y\<rfloor> + 1"
    by linarith
  have c: "(of_int (- \<lfloor>y\<rfloor> - 1) :: real) = - of_int \<lfloor>y\<rfloor> - 1"
    by simp
  show "of_int (- \<lfloor>y\<rfloor> - 1) \<le> - y"
    unfolding c using hi by linarith
  show "- y < of_int (- \<lfloor>y\<rfloor> - 1) + 1"
    unfolding c using lo by linarith
qed

lemma round_half_even_neg: "round_half_even (- y) = - round_half_even y"
proof (cases "y = of_int \<lfloor>y\<rfloor>")
  case True
  then show ?thesis
    by (simp add: round_half_even_def floor_neg_int)
next
  case False
  have f: "\<lfloor>- y\<rfloor> = - \<lfloor>y\<rfloor> - 1"
    using False by (rule floor_neg_frac)
  have e: "even (- \<lfloor>y\<rfloor> - 1) = (\<not> even \<lfloor>y\<rfloor>)"
    by simp
  show ?thesis
    unfolding round_half_even_def f e
    by (auto simp: algebra_simps)
qed

text \<open>Rounding is symmetric, so negating a double is exact.\<close>

lemma round_double_neg: "round_double (- x) = pf_neg (round_double x)"
proof (cases "x = 0")
  case True
  then show ?thesis by (simp add: round_double_def)
next
  case False
  then show ?thesis
    by (simp add: round_double_def Let_def round_half_even_neg)
qed

lemma is_float_neg: "is_float e \<Longrightarrow> is_float (- e)"
  by (simp add: is_float_def round_double_neg)


text \<open>The exponent found by \<open>floor_log2\<close> is the binary exponent.\<close>

lemma bit_length_bounds:
  "0 < n \<Longrightarrow> 2 ^ (bit_length n - 1) \<le> n \<and> n < 2 ^ bit_length n"
proof (induction n rule: bit_length.induct)
  case (1 n)
  show ?case
  proof (cases "n div 2 = 0")
    case True
    then have "n = 1" using "1.prems" by linarith
    then show ?thesis by (simp add: bit_length.simps)
  next
    case False
    define k where "k = bit_length (n div 2)"
    have ih: "2 ^ (k - 1) \<le> n div 2" "n div 2 < 2 ^ k"
      using "1.IH" "1.prems" False by (simp_all add: k_def)
    have pos: "0 < k"
      unfolding k_def using False by (subst bit_length.simps) simp
    have b: "bit_length n = Suc k"
      unfolding k_def using "1.prems" by (subst bit_length.simps) simp
    have p: "(2::nat) ^ k = 2 * 2 ^ (k - 1)"
      using pos by (cases k) simp_all
    have d: "2 * (n div 2) \<le> n" "n < 2 * (n div 2) + 2"
      by linarith+
    have lo: "2 ^ k \<le> n"
      using ih(1) d(1) p by linarith
    have hi: "n < 2 * 2 ^ k"
      using ih(2) d(2) by linarith
    show ?thesis
      unfolding b using lo hi by simp
  qed
qed

lemma bit_length_pos: "0 < n \<Longrightarrow> 0 < bit_length n"
  by (subst bit_length.simps) simp

lemma bit_length_bounds_real:
  assumes "0 < n"
  shows "(2::real) ^ (bit_length n - 1) \<le> real n" and "real n + 1 \<le> 2 ^ bit_length n"
proof -
  note b = bit_length_bounds [OF assms]
  have "real (2 ^ (bit_length n - 1)) \<le> real n"
    using b by (simp only: of_nat_le_iff)
  then show "(2::real) ^ (bit_length n - 1) \<le> real n"
    by simp
  have "Suc n \<le> 2 ^ bit_length n"
    using b by simp
  then have "real (Suc n) \<le> real (2 ^ bit_length n)"
    by (simp only: of_nat_le_iff)
  then show "real n + 1 \<le> 2 ^ bit_length n"
    by simp
qed

lemma floor_log2_bounds:
  assumes "0 < x"
  shows "pow2 (floor_log2 x) \<le> x \<and> x < pow2 (floor_log2 x + 1)"
proof (cases "1 \<le> x")
  case True
  define n where "n = nat \<lfloor>x\<rfloor>"
  have fl1: "1 \<le> \<lfloor>x\<rfloor>" using True by linarith
  have n1: "0 < n" using fl1 by (simp add: n_def)
  have rn: "real n = of_int \<lfloor>x\<rfloor>" using fl1 by (simp add: n_def)
  have nx: "real n \<le> x" "x < real n + 1"
    unfolding rn by linarith+
  note b = bit_length_bounds_real [OF n1]
  note bl = bit_length_pos [OF n1]
  have f: "floor_log2 x = int (bit_length n) - 1"
    using True by (simp add: floor_log2_def n_def)
  have nn: "nat (int (bit_length n) - 1) = bit_length n - 1"
    by simp
  have e1: "pow2 (floor_log2 x) = 2 ^ (bit_length n - 1)"
    unfolding f pow2_def using bl by (simp add: nn)
  have e2: "pow2 (floor_log2 x + 1) = 2 ^ bit_length n"
    unfolding f pow2_def by simp
  show ?thesis
    unfolding e1 e2 using nx b by linarith
next
  case False
  then have lt1: "x < 1" by simp
  define m where "m = nat (\<lceil>1 / x\<rceil> - 1)"
  have inv: "1 < 1 / x" using assms lt1 by simp
  have c2: "2 \<le> \<lceil>1 / x\<rceil>" using inv by linarith
  have m1: "0 < m" unfolding m_def using c2 by linarith
  have nonneg: "0 \<le> \<lceil>1 / x\<rceil> - 1" using c2 by linarith
  have "real m = of_int (\<lceil>1 / x\<rceil> - 1)"
    unfolding m_def using nonneg by (rule of_nat_nat)
  then have rm: "real m = of_int \<lceil>1 / x\<rceil> - 1"
    by (simp only: of_int_diff of_int_1)
  have mx: "real m < 1 / x" "1 / x \<le> real m + 1"
    unfolding rm by linarith+
  note b = bit_length_bounds_real [OF m1]
  note bl = bit_length_pos [OF m1]
  have f: "floor_log2 x = - int (bit_length m)"
    using False by (simp add: floor_log2_def m_def)
  have e1: "pow2 (floor_log2 x) = 1 / 2 ^ bit_length m"
    unfolding f pow2_def using bl by simp
  have nn: "nat (int (bit_length m) - 1) = bit_length m - 1"
    by simp
  have e2: "pow2 (floor_log2 x + 1) = 1 / 2 ^ (bit_length m - 1)"
  proof (cases "bit_length m = 1")
    case True
    then show ?thesis unfolding f pow2_def by simp
  next
    case False
    then have "1 < bit_length m" using bl by linarith
    then show ?thesis unfolding f pow2_def by (simp add: nn)
  qed
  have "1 / x \<le> 2 ^ bit_length m" using mx b by linarith
  then have a: "1 / 2 ^ bit_length m \<le> x"
    using assms by (simp add: field_simps)
  have "2 ^ (bit_length m - 1) < 1 / x" using mx b by linarith
  then have c: "x < 1 / 2 ^ (bit_length m - 1)"
    using assms by (simp add: field_simps)
  show ?thesis
    unfolding e1 e2 using a c by simp
qed

lemma tolerance_is: "tolerance = Fin tolerance_value"
  by (simp add: tolerance_def tolerance_value_def round_eval)

text \<open>The literal \<open>0.01\<close> lies above one hundredth by less than \<open>10 ^ -18\<close>.\<close>

lemma tolerance_value_bounds:
  "1 / 100 < tolerance_value \<and> tolerance_value < 1 / 100 + 1 / 10 ^ 18"
  by (simp add: tolerance_value_def)

text \<open>
  No double lies between one hundredth and the double of the literal \<open>0.01\<close>: a
  float above one hundredth in magnitude is at least that literal.
\<close>

lemma float_between_impossible:
  assumes "is_float x" and "1 / 100 < x" and "x < tolerance_value"
  shows False
proof -
  have pos: "0 < x" using assms(2) by simp
  have lt1: "x < 1" using assms(3) by (simp add: tolerance_value_def)
  have "99 * x < 1" using assms(3) by (simp add: tolerance_value_def)
  then have lo: "99 < 1 / x" using pos by (simp add: less_divide_eq)
  have "1 < 100 * x" using assms(2) by simp
  then have hi: "1 / x \<le> 100" using pos by (simp add: divide_le_eq)
  have c: "\<lceil>1 / x\<rceil> = 100"
    by (rule ceiling_unique) (use lo hi in simp_all)
  have fl: "floor_log2 x = - 7"
    using pos lt1 by (simp add: floor_log2_def c bit_length.simps)
  define n where "n = round_half_even (x / pow2 (- 59))"
  have r: "round_double x =
     (if pow2 1024 \<le> \<bar>of_int n * pow2 (- 59)\<bar> then (if x < 0 then NInf else PInf)
      else Fin (of_int n * pow2 (- 59)))"
    using pos by (simp add: round_double_def fl Let_def n_def)
  have x: "x = of_int n * pow2 (- 59)"
    using assms(1) unfolding is_float_def r by (simp split: if_splits)
  have x': "x = of_int n / 576460752303423488"
    using x by (simp add: pow2_def)
  have "5764607523034234 < (of_int n :: real)"
    using assms(2) unfolding x' by simp
  then have "5764607523034234 < n" by linarith
  then have "5764607523034235 \<le> n" by linarith
  then have "5764607523034235 \<le> (of_int n :: real)" by linarith
  then have "tolerance_value \<le> x"
    unfolding x' tolerance_value_def by (simp add: divide_le_cancel)
  then show False using assms(3) by simp
qed

lemma float_above_hundredth:
  assumes "is_float e" and "1 / 100 < \<bar>e\<bar>"
  shows "tolerance_value \<le> \<bar>e\<bar>"
proof (rule ccontr)
  assume "\<not> tolerance_value \<le> \<bar>e\<bar>"
  then have lt: "\<bar>e\<bar> < tolerance_value" by simp
  have "is_float \<bar>e\<bar>"
  proof (cases "0 \<le> e")
    case True
    then show ?thesis using assms(1) by simp
  next
    case False
    then have "\<bar>e\<bar> = - e" by simp
    then show ?thesis using is_float_neg [OF assms(1)] by simp
  qed
  then show False
    using assms(2) lt by (rule float_between_impossible)
qed

lemma round_double_samples:
  "round_double (101 / 100) = Fin (4548635623644201 / 4503599627370496)"
  "round_double (8505 / 1000) = Fin (4787889353848259 / 562949953421312)"
  "round_double (852 / 100) = Fin (2398166801574789 / 281474976710656)"
  "round_double (17 / 2) = Fin (17 / 2)"
  "round_double 1 = Fin 1"
  "round_double (4548635623644201 / 4503599627370496 - 1)
     = Fin (45035996273705 / 4503599627370496)"
  by (simp_all add: round_eval)


section \<open>Sanity checks of the library models\<close>

text \<open>The library models on known values.\<close>

lemma weekday_samples:
  "weekday \<lparr>year = 1, month = 1, day = 1\<rparr> = 0"
  "weekday \<lparr>year = 2000, month = 2, day = 29\<rparr> = 1"
  "weekday \<lparr>year = 2024, month = 1, day = 6\<rparr> = 5"
  "weekday \<lparr>year = 2026, month = 11, day = 1\<rparr> = 6"
  "weekday sample_today = 1"
  by (simp_all add: sample_today_def date_eval)

lemma strptime_samples:
  "strptime_ymd ''2024-02-29'' = Some \<lparr>year = 2024, month = 2, day = 29\<rparr>"
  "strptime_ymd ''2024-1-6'' = Some \<lparr>year = 2024, month = 1, day = 6\<rparr>"
  "strptime_ymd ''2023-02-29'' = None"
  "strptime_ymd ''0000-01-01'' = None"
  "strptime_ymd ''2024-01-06 '' = None"
  "strptime_ymd ''24-01-06'' = None"
  "strptime_ymd '''' = None"
  by (simp_all add: date_eval)

lemma py_float_samples:
  "py_float ''34.11'' = Some (Fin (2400277863900119 / 70368744177664))"
  "py_float ''1.01'' = Some (Fin (4548635623644201 / 4503599627370496))"
  "py_float ''0.01'' = Some tolerance"
  "py_float '' 8.50 '' = Some (Fin (17 / 2))"
  "py_float ''-1_0.5e-1'' = Some (Fin (- (4728779608739021 / 4503599627370496)))"
  "py_float ''1e3'' = Some (Fin 1000)"
  "py_float ''.5'' = Some (Fin (1 / 2))"
  "py_float ''5.'' = Some (Fin 5)"
  "py_float ''-Infinity'' = Some NInf"
  "py_float ''nan'' = Some NaN"
  "py_float '''' = None"
  "py_float ''.'' = None"
  "py_float ''1,650.00'' = None"
  "py_float ''8.50%'' = None"
  by (simp_all add: float_eval tolerance_is tolerance_value_def)

text \<open>Overflow gives infinity and underflow gives zero.\<close>

lemma py_float_overflow: "py_float ''1e400'' = Some PInf"
  by (simp add: float_eval)

lemma py_float_underflow: "py_float ''1e-400'' = Some (Fin 0)"
  by (simp add: float_eval)

lemma py_int_samples:
  "py_int ''100'' = Some 100"
  "py_int '' -7 '' = Some (- 7)"
  "py_int ''1_000'' = Some 1000"
  "py_int ''12.5'' = None"
  "py_int '''' = None"
  by (simp_all add: py_int_def split_sign_def strip_with_def c_isspace_def is_digit_def
      nat_of_digits_def digit_val_def)

lemma split_on_samples:
  "split_on (CHR ''~'') [] = [[]]"
  "split_on (CHR ''~'') ''a~~b~'' = [''a'', [], ''b'', []]"
  by simp_all

lemma first_quoted_samples:
  "first_quoted (''v='' @ [dquote] @ ''1~2'' @ [dquote] @ '';'') = Some ''1~2''"
  "first_quoted (''v='' @ [dquote] @ ''1~2'') = None"
  "first_quoted ''v=1~2'' = None"
  by (simp_all add: first_quoted_def dquote_def)

section \<open>Evaluation rules for the samples\<close>

lemmas clock_eval =
  sample_today_def sample_open_now_def sample_closed_now_def sample_open_clock_def
  sample_closed_clock_def valid_time_def date_less_def within_trading_session_def
  usec_of_day_def strftime_ymd_def pad4_def pad2_def digit_char_def

lemmas current_eval =
  fetch_current_data_def dict_data_content_def container_keys_def parse_current_data_def
  float_of_json_def dict_get_def

lemmas historical_eval =
  fetch_historical_data_def historical_data_content_def dict_data_content_def container_keys_def
  parse_historical_data_def extract_fields_def get_field_value_raw_def get_field_value_numeric_def
  safe_float_conversion_def blank_string_def strip_def strip_with_def comma_free_def
  py_isspace_def c_isspace_def name_fields_def open_fields_def stock_keys_def has_key_def
  dict_get_def

lemmas realtime_eval =
  decode_realtime_def quoted_response_def strip_def strip_with_def py_isspace_def c_isspace_def
  startswith_def first_quoted_def dquote_def build_stock_data_def float_field_def int_field_def
  float_field_at_def rt_matching_status_def tolerance_is tolerance_value_def round_eval

section \<open>Session resolver\<close>

lemma is_weekend_parsed:
  "strptime_ymd d = Some dt \<Longrightarrow> is_weekend d = (weekday dt = 5 \<or> weekday dt = 6)"
  by (simp add: is_weekend_def is_weekend_try_def weekend_iff)

lemma is_market_open_now_fail_open: "now_beijing clk = None \<Longrightarrow> is_market_open_now clk"
  by (simp add: is_market_open_now_def)

lemma parse_sample_dates:
  "strptime_ymd ''2026-10-31'' = Some \<lparr>year = 2026, month = 10, day = 31\<rparr>"
  "strptime_ymd ''2026-11-02'' = Some \<lparr>year = 2026, month = 11, day = 2\<rparr>"
  "strptime_ymd ''2026-11-03'' = Some \<lparr>year = 2026, month = 11, day = 3\<rparr>"
  "strptime_ymd ''2026-11-04'' = Some \<lparr>year = 2026, month = 11, day = 4\<rparr>"
  by (simp_all add: date_eval)

lemma sample_open_session:
  "valid_time (dt_time sample_open_now) \<and> within_trading_session sample_open_now"
  by (simp add: clock_eval date_eval)

lemma sample_closed_session:
  "valid_time (dt_time sample_closed_now) \<and> \<not> within_trading_session sample_closed_now"
  by (simp add: clock_eval date_eval)

text \<open>
  Claim C1. For a target date that parses, \<open>get_date_mode\<close> returns \<open>invalid\<close> when the
  date is after today, the result of the live-session check when it is today
  (\<open>current\<close> inside a trading session of the exchange clock, \<open>market_closed_now\<close>
  otherwise), and for a date in the past \<open>market_closed_weekend\<close> on a Saturday or
  Sunday and \<open>historical\<close> otherwise, each time with the date given. Without a target
  date it returns the result of the same live-session check with today's date.
\<close>

theorem get_date_mode_resolves:
  assumes "now_beijing clk = Some now" and "valid_time (dt_time now)"
    and "strptime_ymd d = Some dt"
  shows "get_date_mode clk (Some d) =
           (if date_less (today clk) dt then invalid
            else if dt = today clk then
              (if within_trading_session now then current else market_closed_now)
            else if weekday dt = 5 \<or> weekday dt = 6 then market_closed_weekend
            else historical, d)
         \<and> get_date_mode clk None =
           (if within_trading_session now then current else market_closed_now,
            strftime_ymd (today clk))"
  using assms
  by (simp add: get_date_mode_def get_date_mode_try_def is_weekend_parsed
      is_market_open_now_session)

theorem get_date_mode_resolves_witness:
  "now_beijing sample_open_clock = Some sample_open_now
   \<and> valid_time (dt_time sample_open_now)
   \<and> strptime_ymd ''2026-10-31'' = Some \<lparr>year = 2026, month = 10, day = 31\<rparr>
   \<and> get_date_mode sample_open_clock (Some ''2026-11-04'') = (invalid, ''2026-11-04'')
   \<and> get_date_mode sample_open_clock (Some ''2026-11-03'') = (current, ''2026-11-03'')
   \<and> get_date_mode sample_closed_clock (Some ''2026-11-03'') = (market_closed_now, ''2026-11-03'')
   \<and> get_date_mode sample_open_clock (Some ''2026-11-02'') = (historical, ''2026-11-02'')
   \<and> get_date_mode sample_open_clock (Some ''2026-10-31'') = (market_closed_weekend, ''2026-10-31'')
   \<and> get_date_mode sample_open_clock None = (current, ''2026-11-03'')
   \<and> get_date_mode sample_closed_clock None = (market_closed_now, ''2026-11-03'')"
proof -
  have o: "now_beijing sample_open_clock = Some sample_open_now"
    by (simp add: sample_open_clock_def)
  have c: "now_beijing sample_closed_clock = Some sample_closed_now"
    by (simp add: sample_closed_clock_def)
  note vo = conjunct1 [OF sample_open_session]
  note vc = conjunct1 [OF sample_closed_session]
  have t: "today sample_open_clock = sample_today" "today sample_closed_clock = sample_today"
    by (simp_all add: sample_open_clock_def sample_closed_clock_def)
  have "get_date_mode sample_open_clock (Some ''2026-11-04'') = (invalid, ''2026-11-04'')"
    using get_date_mode_resolves [OF o vo parse_sample_dates(4)]
    by (simp add: t sample_today_def date_less_def)
  moreover have "get_date_mode sample_open_clock (Some ''2026-11-03'') = (current, ''2026-11-03'')"
    using get_date_mode_resolves [OF o vo parse_sample_dates(3)] sample_open_session
    by (simp add: t sample_today_def date_less_def)
  moreover have "get_date_mode sample_closed_clock (Some ''2026-11-03'')
      = (market_closed_now, ''2026-11-03'')"
    using get_date_mode_resolves [OF c vc parse_sample_dates(3)] sample_closed_session
    by (simp add: t sample_today_def date_less_def)
  moreover have "get_date_mode sample_open_clock (Some ''2026-11-02'') = (historical, ''2026-11-02'')"
    using get_date_mode_resolves [OF o vo parse_sample_dates(2)]
    by (simp add: t sample_today_def date_less_def date_eval)
  moreover have "get_date_mode sample_open_clock (Some ''2026-10-31'')
      = (market_closed_weekend, ''2026-10-31'')"
    using get_date_mode_resolves [OF o vo parse_sample_dates(1)]
    by (simp add: t sample_today_def date_less_def date_eval)
  moreover have "get_date_mode sample_open_clock None = (current, ''2026-11-03'')"
    using get_date_mode_resolves [OF o vo parse_sample_dates(1)] sample_open_session
    by (simp add: t clock_eval)
  moreover have "get_date_mode sample_closed_clock None = (market_closed_now, ''2026-11-03'')"
    using get_date_mode_resolves [OF c vc parse_sample_dates(1)] sample_closed_session
    by (simp add: t clock_eval)
  ultimately show ?thesis
    using o vo parse_sample_dates(1) by simp
qed

lemma sample_modes:
  "get_date_mode sample_open_clock None = (current, ''2026-11-03'')"
  "get_date_mode sample_closed_clock None = (market_closed_now, ''2026-11-03'')"
  "get_date_mode sample_open_clock (Some ''2026-11-02'') = (historical, ''2026-11-02'')"
  "get_date_mode sample_open_clock (Some ''2026-10-31'') = (market_closed_weekend, ''2026-10-31'')"
proof -
  have s: "is_market_open_now sample_open_clock" "\<not> is_market_open_now sample_closed_clock"
    using is_market_open_now_session [of sample_open_clock sample_open_now]
      is_market_open_now_session [of sample_closed_clock sample_closed_now]
      sample_open_session sample_closed_session
    by (simp_all add: sample_open_clock_def sample_closed_clock_def)
  show "get_date_mode sample_open_clock None = (current, ''2026-11-03'')"
    using s by (simp add: get_date_mode_def sample_open_clock_def clock_eval)
  show "get_date_mode sample_closed_clock None = (market_closed_now, ''2026-11-03'')"
    using s by (simp add: get_date_mode_def sample_closed_clock_def clock_eval)
  show "get_date_mode sample_open_clock (Some ''2026-11-02'') = (historical, ''2026-11-02'')"
    by (simp add: get_date_mode_def get_date_mode_try_def parse_sample_dates is_weekend_parsed
        sample_open_clock_def sample_today_def date_less_def date_eval)
  show "get_date_mode sample_open_clock (Some ''2026-10-31'')
      = (market_closed_weekend, ''2026-10-31'')"
    by (simp add: get_date_mode_def get_date_mode_try_def parse_sample_dates is_weekend_parsed
        sample_open_clock_def sample_today_def date_less_def date_eval)
qed

text \<open>
  Claim C6, as stated: for a string that does not parse as a date \<open>is_weekend\<close> fails
  with an error. It does not: the \<open>ValueError\<close> raised inside is caught and the
  function returns \<open>False\<close>, here for the thirteenth month.
\<close>

theorem is_weekend_unparseable_counterexample:
  "strptime_ymd ''2024-13-01'' = None
   \<and> is_weekend_try ''2024-13-01'' = None
   \<and> is_weekend ''2024-13-01'' = False"
  by (simp add: is_weekend_def is_weekend_try_def date_eval)

text \<open>
  Claim C6, amended: \<open>is_weekend\<close> never fails. For a string that does not parse as a
  date it returns \<open>False\<close>; for one that parses it returns \<open>True\<close> exactly when the date
  is a Saturday or a Sunday.
\<close>

theorem is_weekend_total:
  "is_weekend d =
     (case strptime_ymd d of
        None \<Rightarrow> False
      | Some dt \<Rightarrow> weekday dt = 5 \<or> weekday dt = 6)"
  by (simp add: is_weekend_def is_weekend_try_def weekend_iff split: option.splits)

text \<open>
  Claim C7, as stated: a malformed target date makes \<open>get_date_mode\<close> fail with an
  error distinct from the \<open>invalid\<close> mode of a future date. It does not: the
  \<open>ValueError\<close> is caught and the mode returned is \<open>invalid\<close>, the same as for
  tomorrow's date.
\<close>

theorem get_date_mode_malformed_counterexample:
  "strptime_ymd ''2026/11/03'' = None
   \<and> get_date_mode_try sample_open_clock ''2026/11/03'' = None
   \<and> get_date_mode sample_open_clock (Some ''2026/11/03'') = (invalid, ''2026/11/03'')
   \<and> fst (get_date_mode sample_open_clock (Some ''2026/11/03''))
       = fst (get_date_mode sample_open_clock (Some ''2026-11-04''))"
  by (simp add: get_date_mode_def get_date_mode_try_def parse_sample_dates(4)
      sample_open_clock_def sample_today_def date_less_def match_year_def match_dash_def
      strptime_ymd_def is_digit_def nat_of_digits_def digit_val_def)

text \<open>
  Claim C7, amended: for every target date that does not parse, \<open>get_date_mode\<close>
  raises no error and returns the mode \<open>invalid\<close> with the string given, the mode it
  also returns for a well-formed future date.
\<close>

theorem get_date_mode_malformed:
  "strptime_ymd d = None \<Longrightarrow> get_date_mode clk (Some d) = (invalid, d)"
  by (simp add: get_date_mode_def get_date_mode_try_def)

theorem get_date_mode_malformed_witness:
  "strptime_ymd ''2024-13-01'' = None
   \<and> get_date_mode sample_closed_clock (Some ''2024-13-01'') = (invalid, ''2024-13-01'')"
proof -
  have h: "strptime_ymd ''2024-13-01'' = None"
    by (simp add: date_eval)
  show ?thesis
    using h get_date_mode_malformed [OF h, of sample_closed_clock] by simp
qed

section \<open>Orchestrator and reconciliation\<close>

lemma matching_status_not_closed: "matching_status x e \<noteq> ''MARKET CLOSED''"
  by (simp add: matching_status_def split: option.splits)

lemma get_stock_data_tradeable:
  assumes "get_date_mode clk td = (m, ds)" and "m = current \<or> m = historical"
  shows "get_stock_data clk net ticker eo td =
           (let (reqs, fetched) =
                  (if m = current then fetch_current_data net ticker
                   else fetch_historical_data net ticker ds)
            in case fetched of
                 None \<Rightarrow> (reqs, None)
               | Some sd \<Rightarrow>
                   (reqs,
                    Some (stock_data.extend sd
                            (checked_data.fields eo
                               (matching_status (open_price sd) eo) None))))"
  using assms by (auto simp: get_stock_data_def)

lemma get_stock_data_tradeable_result:
  assumes "get_date_mode clk td = (m, ds)" and "m = current \<or> m = historical"
    and "get_stock_data clk net ticker eo td = (l, Some r)"
  shows "match_status r = matching_status (open_price r) eo
       \<and> expected_open r = eo \<and> market_status r = None"
  using assms(3) unfolding get_stock_data_tradeable [OF assms(1,2)]
  by (auto simp: stock_data.defs checked_data.defs split: prod.splits option.splits)

lemma fetch_sample_current:
  "fetch_current_data (\<lambda>req. JsonBody sample_current_body) ''000001'' =
     ([current_request ''000001''],
      Some \<lparr>symbol = ''000001'', name = JStr ''Ping An'', open_price = Fin (17 / 2),
            data_type = ''current''\<rparr>)"
  by (simp add: sample_current_body_def current_eval float_eval)


lemma get_stock_data_sample_current:
  "get_stock_data sample_open_clock (\<lambda>req. JsonBody sample_current_body) ''000001'' eo None =
     ([current_request ''000001''],
      Some \<lparr>symbol = ''000001'', name = JStr ''Ping An'', open_price = Fin (17 / 2),
            data_type = ''current'', expected_open = eo,
            match_status = matching_status (Fin (17 / 2)) eo, market_status = None\<rparr>)"
  by (simp add: get_stock_data_def sample_modes fetch_sample_current stock_data.defs
      checked_data.defs)


text \<open>
  Claim C2. When the resolved mode is \<open>market_closed_weekend\<close> or \<open>market_closed_now\<close>,
  \<open>get_stock_data\<close> issues no request and returns the market-closed result: status
  \<open>MARKET CLOSED\<close>, no quote (the name is the placeholder \<open>N/A\<close> and the open price
  is 0) and the reason why the market is closed, whatever the expected price. In no
  other mode does a result carry the status \<open>MARKET CLOSED\<close>.
\<close>

theorem market_closed_result:
  assumes "get_date_mode clk td = (m, ds)"
  shows "((m = market_closed_weekend \<or> m = market_closed_now) \<longrightarrow>
            get_stock_data clk net ticker eo td =
              ([], Some \<lparr>symbol = ticker, name = JStr ''N/A'', open_price = Fin 0,
                         data_type = (if m = market_closed_weekend
                                      then ''Weekend - Market Closed''
                                      else ''Outside Trading Hours''),
                         expected_open = eo, match_status = ''MARKET CLOSED'',
                         market_status = Some (if m = market_closed_weekend
                                               then ''Weekend - Market Closed''
                                               else ''Outside Trading Hours'')\<rparr>))
         \<and> (\<forall>l r. get_stock_data clk net ticker eo td = (l, Some r)
                     \<and> match_status r = ''MARKET CLOSED''
                \<longrightarrow> m = market_closed_weekend \<or> m = market_closed_now)"
proof (intro conjI allI impI)
  assume "m = market_closed_weekend \<or> m = market_closed_now"
  then show "get_stock_data clk net ticker eo td =
              ([], Some \<lparr>symbol = ticker, name = JStr ''N/A'', open_price = Fin 0,
                         data_type = (if m = market_closed_weekend
                                      then ''Weekend - Market Closed''
                                      else ''Outside Trading Hours''),
                         expected_open = eo, match_status = ''MARKET CLOSED'',
                         market_status = Some (if m = market_closed_weekend
                                               then ''Weekend - Market Closed''
                                               else ''Outside Trading Hours'')\<rparr>)"
    using assms by (auto simp: get_stock_data_def create_market_closed_result_def)
next
  fix l r
  assume a: "get_stock_data clk net ticker eo td = (l, Some r)
               \<and> match_status r = ''MARKET CLOSED''"
  show "m = market_closed_weekend \<or> m = market_closed_now"
  proof (cases m)
    case invalid
    with assms a show ?thesis by (simp add: get_stock_data_def)
  next
    case current
    with get_stock_data_tradeable_result [OF assms _ conjunct1 [OF a]] a
    show ?thesis by (metis matching_status_not_closed)
  next
    case historical
    with get_stock_data_tradeable_result [OF assms _ conjunct1 [OF a]] a
    show ?thesis by (metis matching_status_not_closed)
  qed simp_all
qed

theorem market_closed_result_witness:
  "get_date_mode sample_open_clock (Some ''2026-10-31'') = (market_closed_weekend, ''2026-10-31'')
   \<and> get_stock_data sample_open_clock (\<lambda>req. RequestFailed) ''000001'' (Some (Fin (17 / 2)))
        (Some ''2026-10-31'') =
       ([], Some \<lparr>symbol = ''000001'', name = JStr ''N/A'', open_price = Fin 0,
                  data_type = ''Weekend - Market Closed'',
                  expected_open = Some (Fin (17 / 2)), match_status = ''MARKET CLOSED'',
                  market_status = Some ''Weekend - Market Closed''\<rparr>)
   \<and> get_date_mode sample_closed_clock None = (market_closed_now, ''2026-11-03'')
   \<and> get_stock_data sample_closed_clock (\<lambda>req. RequestFailed) ''000001'' None None =
       ([], Some \<lparr>symbol = ''000001'', name = JStr ''N/A'', open_price = Fin 0,
                  data_type = ''Outside Trading Hours'',
                  expected_open = None, match_status = ''MARKET CLOSED'',
                  market_status = Some ''Outside Trading Hours''\<rparr>)"
  using sample_modes(2,4)
    market_closed_result [OF sample_modes(4), of "\<lambda>req. RequestFailed" "''000001''"
      "Some (Fin (17 / 2))"]
    market_closed_result [OF sample_modes(2), of "\<lambda>req. RequestFailed" "''000001''" None]
  by simp

lemma fetch_sample_cent:
  "fetch_current_data (\<lambda>req. JsonBody sample_cent_body) ''000001'' =
     ([current_request ''000001''],
      Some \<lparr>symbol = ''000001'', name = JStr ''Ping An'',
            open_price = Fin (4548635623644201 / 4503599627370496),
            data_type = ''current''\<rparr>)"
  by (simp add: sample_cent_body_def current_eval float_eval)

lemma get_stock_data_sample_cent:
  "get_stock_data sample_open_clock (\<lambda>req. JsonBody sample_cent_body) ''000001'' eo None =
     ([current_request ''000001''],
      Some \<lparr>symbol = ''000001'', name = JStr ''Ping An'',
            open_price = Fin (4548635623644201 / 4503599627370496),
            data_type = ''current'', expected_open = eo,
            match_status = matching_status (Fin (4548635623644201 / 4503599627370496)) eo,
            market_status = None\<rparr>)"
  by (simp add: get_stock_data_def sample_modes fetch_sample_cent stock_data.defs
      checked_data.defs)

text \<open>
  Claim C3. The status of a decoded quote is meant to be \<open>MATCHED\<close> exactly when the
  open price and the expected price differ by at most 0.01, the one cent tolerance.
  For the open price \<open>1.01\<close> and the expected price \<open>1.0\<close>, which are one cent
  apart, the program computes in floats: the double read from \<open>1.01\<close> minus 1 is
  above the double of the literal \<open>0.01\<close>, and the status is \<open>NOT MATCHED\<close>.
\<close>

theorem one_cent_apart_not_matched:
  "\<bar>101 / 100 - 1\<bar> \<le> (1 / 100 :: real)
   \<and> py_float ''1.01'' = Some (Fin (4548635623644201 / 4503599627370496))
   \<and> pf_sub (Fin (4548635623644201 / 4503599627370496)) (Fin 1)
       = Fin (45035996273705 / 4503599627370496)
   \<and> tolerance = Fin (5764607523034235 / 576460752303423488)
   \<and> \<not> pf_le (pf_abs (pf_sub (Fin (4548635623644201 / 4503599627370496)) (Fin 1))) tolerance
   \<and> get_stock_data sample_open_clock (\<lambda>req. JsonBody sample_cent_body) ''000001''
        (Some (Fin 1)) None =
       ([current_request ''000001''],
        Some \<lparr>symbol = ''000001'', name = JStr ''Ping An'',
              open_price = Fin (4548635623644201 / 4503599627370496),
              data_type = ''current'', expected_open = Some (Fin 1),
              match_status = ''NOT MATCHED'', market_status = None\<rparr>)"
proof -
  have p: "py_float ''1.01'' = Some (Fin (4548635623644201 / 4503599627370496))"
    by (simp add: float_eval)
  have d: "pf_sub (Fin (4548635623644201 / 4503599627370496)) (Fin 1)
       = Fin (45035996273705 / 4503599627370496)"
    by (simp add: round_eval)
  have t: "tolerance = Fin (5764607523034235 / 576460752303423488)"
    by (simp add: tolerance_is tolerance_value_def)
  have n: "\<not> pf_le (pf_abs (pf_sub (Fin (4548635623644201 / 4503599627370496)) (Fin 1)))
             tolerance"
    unfolding d t by simp
  have m: "matching_status (Fin (4548635623644201 / 4503599627370496)) (Some (Fin 1))
             = ''NOT MATCHED''"
    using n by (simp add: matching_status_def)
  show ?thesis
    using p d t n by (simp add: get_stock_data_sample_cent m)
qed

text \<open>
  The same comparison decides the status in the real-time feed clients, with the
  same outcome for prices one cent apart.
\<close>

lemma realtime_one_cent_apart:
  "rt_matching_status (Fin (4548635623644201 / 4503599627370496)) (Some (Fin 1))
     = ''NOT MATCHED!''"
  by (simp add: rt_matching_status_def tolerance_is tolerance_value_def round_eval)

text \<open>
  Where the difference is not at the boundary the status is as intended: an open
  price of \<open>8.50\<close> matches the expected price 8.505 and does not match 8.52.
\<close>

lemma matching_status_samples:
  "matching_status (Fin (17 / 2)) (Some (Fin (4787889353848259 / 562949953421312)))
     = ''MATCHED''"
  "matching_status (Fin (17 / 2)) (Some (Fin (2398166801574789 / 281474976710656)))
     = ''NOT MATCHED''"
  "matching_status (Fin (17 / 2)) None = ''NO EXPECTED PRICE''"
  by (simp_all add: matching_status_def tolerance_is tolerance_value_def round_eval)



section \<open>Report decoders\<close>

lemma find_field_first_usable:
  "find_field d ks =
     (case find (usable_field d) ks of
        None \<Rightarrow> None
      | Some k \<Rightarrow> Some (dict_get d k JNull))"
  by (induction ks) (auto simp: usable_field_def dict_get_def split: option.splits)

lemma scan_skips_metadata:
  assumes "has_key w ''metadata''" and "\<not> has_key s ''metadata''" and "\<not> has_key s ''data''"
    and "list_ex (has_key s) stock_keys"
  shows "scan_elements (JObj w # JObj s # rest) = JObj s"
  using assms by (simp add: dict_get_def has_key_def)

lemma stock_key_nonempty: "list_ex (has_key s) stock_keys \<Longrightarrow> s \<noteq> []"
  by (auto simp: list_ex_iff has_key_def)

text \<open>
  Claim C4. In the current mode the open field is handed to \<open>float\<close> as it is: the
  response \<open>{"result": {"name": "Ping An", "openPrice": "1,650.00"}}\<close> is requested
  once and no quote is decoded from it, since the comma makes \<open>float\<close> raise and the
  exception ends the decoding.
\<close>

theorem current_decode_comma_price:
  "fetch_current_data (\<lambda>req. JsonBody sample_comma_body) ''600519'' =
     ([current_request ''600519''], None)"
  by (simp add: sample_comma_body_def current_eval float_eval)

text \<open>
  The historical decoder removes commas and surrounding blanks before the
  conversion and falls back to the default when the conversion fails.
\<close>

lemma safe_float_conversion_text:
  "safe_float_conversion (JStr s) dflt =
     (if s = [] \<or> s = ''-'' then dflt
      else (case py_float (strip (comma_free s)) of Some x \<Rightarrow> x | None \<Rightarrow> dflt))"
  by (simp add: safe_float_conversion_def)

lemma safe_float_conversion_samples:
  "safe_float_conversion (JStr ''1,650.00'') (Fin 0) = Fin 1650"
  "safe_float_conversion (JStr ''  8.50 '') (Fin 0) = Fin (17 / 2)"
  "safe_float_conversion (JStr ''n/a'') (Fin 0) = Fin 0"
  by (simp_all add: safe_float_conversion_def comma_free_def strip_def strip_with_def
      py_isspace_def c_isspace_def float_eval)

lemma historical_decode_comma_sample:
  "fetch_historical_data (\<lambda>req. JsonBody sample_comma_body) ''600519'' ''2026-11-02'' =
     ([historical_request ''600519'' ''2026-11-02''],
      Some \<lparr>symbol = ''600519'', name = JStr ''Ping An'', open_price = Fin 0,
            data_type = ''historical''\<rparr>)"
  by (simp add: sample_comma_body_def historical_eval)

text \<open>
  Claim C8, as stated: when the first element of the array has a \<open>metadata\<close> key and
  the second carries stock keys, the decoder selects the second element and reads
  name and open price from it. It does not when the second element also has a
  \<open>data\<close> key: the value of that key is taken instead of the element, here a
  string, from which no quote is decoded.
\<close>

theorem historical_array_data_key_counterexample:
  "has_key sample_metadata ''metadata''
   \<and> \<not> has_key sample_vanke_with_data ''metadata''
   \<and> list_ex (has_key sample_vanke_with_data) stock_keys
   \<and> historical_data_content (JArr [JObj sample_metadata, JObj sample_vanke_with_data])
       = JStr ''2026-11-02''
   \<and> fetch_historical_data
        (\<lambda>req. JsonBody (JArr [JObj sample_metadata, JObj sample_vanke_with_data]))
        ''000002'' ''2026-11-02'' =
       ([historical_request ''000002'' ''2026-11-02''], None)"
  by (simp add: sample_metadata_def sample_vanke_with_data_def historical_eval)

text \<open>
  Claim C8, amended: when the historical response is an array whose first element
  is a dictionary with a \<open>metadata\<close> key and whose second element is a dictionary
  that has one of the stock keys and neither a \<open>metadata\<close> nor a \<open>data\<close> key, the
  decoder skips the first, selects the second and reads the name and the open price
  from the first usable key of the respective key list, with \<open>N/A\<close> and 0 as
  defaults.
\<close>

theorem historical_array_skips_metadata:
  assumes "has_key w ''metadata''" and "\<not> has_key s ''metadata''" and "\<not> has_key s ''data''"
    and "list_ex (has_key s) stock_keys"
    and "net (historical_request ticker td) = JsonBody (JArr (JObj w # JObj s # rest))"
  shows "historical_data_content (JArr (JObj w # JObj s # rest)) = JObj s
       \<and> fetch_historical_data net ticker td =
           ([historical_request ticker td],
            Some \<lparr>symbol = ticker,
                  name = (case find (usable_field s) name_fields of
                            Some k \<Rightarrow> dict_get s k JNull
                          | None \<Rightarrow> JStr ''N/A''),
                  open_price = (case find (usable_field s) open_fields of
                                  Some k \<Rightarrow> safe_float_conversion (dict_get s k JNull) (Fin 0)
                                | None \<Rightarrow> Fin 0),
                  data_type = ''historical''\<rparr>)"
proof -
  have c: "historical_data_content (JArr (JObj w # JObj s # rest)) = JObj s"
    using scan_skips_metadata [OF assms(1-4)] by (simp add: historical_data_content_def)
  have ne: "s \<noteq> []"
    using assms(4) by (rule stock_key_nonempty)
  have p: "parse_historical_data (JObj s) ticker td =
            Some \<lparr>symbol = ticker,
                  name = (case find (usable_field s) name_fields of
                            Some k \<Rightarrow> dict_get s k JNull
                          | None \<Rightarrow> JStr ''N/A''),
                  open_price = (case find (usable_field s) open_fields of
                                  Some k \<Rightarrow> safe_float_conversion (dict_get s k JNull) (Fin 0)
                                | None \<Rightarrow> Fin 0),
                  data_type = ''historical''\<rparr>"
    using ne
    by (simp add: parse_historical_data_def extract_fields_def get_field_value_raw_def
        get_field_value_numeric_def find_field_first_usable split: option.splits)
  show ?thesis
    using c p ne assms(5) by (simp add: fetch_historical_data_def)
qed

theorem historical_array_skips_metadata_witness:
  "has_key sample_metadata ''metadata''
   \<and> \<not> has_key sample_vanke ''metadata''
   \<and> \<not> has_key sample_vanke ''data''
   \<and> list_ex (has_key sample_vanke) stock_keys
   \<and> fetch_historical_data (\<lambda>req. JsonBody sample_vanke_body) ''000002'' ''2026-11-02'' =
        ([historical_request ''000002'' ''2026-11-02''],
         Some \<lparr>symbol = ''000002'', name = JStr ''Vanke'', open_price = Fin (17 / 2),
               data_type = ''historical''\<rparr>)"
proof -
  have h1: "has_key sample_metadata ''metadata''"
    by (simp add: has_key_def sample_metadata_def)
  have h2: "\<not> has_key sample_vanke ''metadata''"
    by (simp add: has_key_def sample_vanke_def)
  have h3: "\<not> has_key sample_vanke ''data''"
    by (simp add: has_key_def sample_vanke_def)
  have h4: "list_ex (has_key sample_vanke) stock_keys"
    by (simp add: has_key_def stock_keys_def sample_vanke_def)
  have h5: "(\<lambda>req. JsonBody sample_vanke_body) (historical_request ''000002'' ''2026-11-02'') =
      JsonBody (JArr (JObj sample_metadata # JObj sample_vanke # []))"
    by (simp add: sample_vanke_body_def)
  have n: "find (usable_field sample_vanke) name_fields = Some ''zqjc''"
    by (simp add: usable_field_def blank_string_def strip_def strip_with_def py_isspace_def
        c_isspace_def name_fields_def sample_vanke_def)
  have k: "find (usable_field sample_vanke) open_fields = Some ''ks''"
    by (simp add: usable_field_def blank_string_def strip_def strip_with_def py_isspace_def
        c_isspace_def open_fields_def sample_vanke_def)
  have v: "safe_float_conversion (dict_get sample_vanke ''ks'' JNull) (Fin 0) = Fin (17 / 2)"
    by (simp add: sample_vanke_def dict_get_def safe_float_conversion_def comma_free_def
        strip_def strip_with_def py_isspace_def c_isspace_def float_eval)
  have d: "dict_get sample_vanke ''zqjc'' JNull = JStr ''Vanke''"
    by (simp add: sample_vanke_def dict_get_def)
  show ?thesis
    using h1 h2 h3 h4 historical_array_skips_metadata [OF h1 h2 h3 h4 h5]
    by (simp add: n k v d)
qed

section \<open>Real-time feed decoder\<close>

lemma length_split_on: "length (split_on sep s) = Suc (count_list s sep)"
  by (induction s) (auto split: list.splits)

lemma float_field_None: "(float_field x = None) = (x \<noteq> [] \<and> py_float x = None)"
  by (simp add: float_field_def)

lemma int_field_None: "(int_field x = None) = (x \<noteq> [] \<and> py_int x = None)"
  by (simp add: int_field_def)

lemma float_field_at_None:
  "(float_field_at parts i = None)
     = (i < length parts \<and> parts ! i \<noteq> [] \<and> py_float (parts ! i) = None)"
  by (simp add: float_field_at_def)

lemma float_field_Some: "(float_field x = Some v) = converted_float x v"
  by (auto simp: float_field_def converted_float_def)

lemma int_field_Some: "(int_field x = Some v) = converted_int x v"
  by (auto simp: int_field_def converted_int_def)

lemma float_field_at_Some: "(float_field_at parts i = Some v) = converted_float_at parts i v"
  by (auto simp: float_field_at_def converted_float_at_def converted_float_def)

lemma build_stock_data_None:
  "(build_stock_data ticker expd now_text parts = None) =
     (float_field (parts ! 3) = None \<or> float_field (parts ! 4) = None \<or>
      float_field (parts ! 5) = None \<or> int_field (parts ! 6) = None \<or>
      float_field_at parts 37 = None \<or> float_field (parts ! 9) = None \<or>
      int_field (parts ! 10) = None \<or> float_field (parts ! 19) = None \<or>
      int_field (parts ! 20) = None \<or> float_field_at parts 33 = None \<or>
      float_field_at parts 34 = None \<or> float_field_at parts 31 = None \<or>
      float_field_at parts 32 = None)"
  unfolding build_stock_data_def
  by (simp add: bind_eq_None_conv)

lemma build_stock_data_Some:
  assumes "build_stock_data ticker expd now_text parts = Some r"
  shows "float_field (parts ! 3) = Some (current_price r)"
    and "float_field (parts ! 4) = Some (yesterday_close r)"
    and "float_field (parts ! 5) = Some (rt_open r)"
    and "int_field (parts ! 6) = Some (volume r)"
    and "volume_shares r = volume r * 100"
    and "float_field_at parts 37 = Some (turnover r)"
    and "float_field (parts ! 9) = Some (bid1_price r)"
    and "int_field (parts ! 10) = Some (bid1_volume r)"
    and "float_field (parts ! 19) = Some (ask1_price r)"
    and "int_field (parts ! 20) = Some (ask1_volume r)"
    and "float_field_at parts 33 = Some (high r)"
    and "float_field_at parts 34 = Some (low r)"
    and "float_field_at parts 31 = Some (change r)"
    and "float_field_at parts 32 = Some (change_percent r)"
    and "rt_name r = parts ! 1"
    and "rt_match_status r = rt_matching_status (rt_open r) (equ_open expd)"
  using assms unfolding build_stock_data_def
  by (auto simp: bind_eq_Some_conv)

lemma decode_realtime_parts:
  assumes "strip txt \<noteq> []" and "\<not> contains (strip txt) ''pv_none_match''"
    and "first_quoted (strip txt) = Some payload"
    and "30 \<le> length (split_on (CHR ''~'') payload)"
  shows "decode_realtime ticker expd now_text txt =
           build_stock_data ticker expd now_text (split_on (CHR ''~'') payload)"
  using assms by (simp add: decode_realtime_def Let_def)

lemma sample_response_facts:
  "strip (quoted_response sample_empty_payload) \<noteq> []"
  "\<not> contains (strip (quoted_response sample_empty_payload)) ''pv_none_match''"
  "first_quoted (strip (quoted_response sample_empty_payload)) = Some sample_empty_payload"
  "30 \<le> length (split_on (CHR ''~'') sample_empty_payload)"
  "split_on (CHR ''~'') sample_empty_payload ! 5 = []"
  by (simp_all add: realtime_eval sample_empty_payload_def)

lemma decode_sample_empty:
  "decode_realtime ''000001'' sample_expected sample_now_text
     (quoted_response sample_empty_payload) = Some sample_empty_result"
  by (simp add: realtime_eval sample_empty_payload_def sample_expected_def
      sample_empty_result_def)

text \<open>
  Claim C5, as stated: with at least 30 fields, a conversion failure on a numeric
  field other than the open price yields zero for that field and the decoding
  succeeds. It does not: in this payload of 30 fields the current price (position 3)
  is \<open>abc\<close> and the open price (position 5) is \<open>8.50\<close>, and the decoder returns no
  result.
\<close>

theorem other_field_failure_counterexample:
  "length (split_on (CHR ''~'') sample_bad_price_payload) = 30
   \<and> split_on (CHR ''~'') sample_bad_price_payload ! 3 = ''abc''
   \<and> py_float ''abc'' = None
   \<and> py_float (split_on (CHR ''~'') sample_bad_price_payload ! 5) = Some (Fin (17 / 2))
   \<and> decode_realtime ''000001'' sample_expected sample_now_text
        (quoted_response sample_bad_price_payload) = None"
  by (simp add: realtime_eval sample_bad_price_payload_def float_eval)

text \<open>
  Claim C5, amended: with at least 30 fields, the decoder fails exactly when some
  converted numeric field that is present and not empty does not convert, whether it
  is the open price or any other (current price, previous close, volume, bid and
  ask, and the positions 31 to 34 and 37). When it succeeds, every numeric field is
  the conversion of its text, and an empty text gives zero.
\<close>

theorem delimited_numeric_fields:
  assumes "strip txt \<noteq> []" and "\<not> contains (strip txt) ''pv_none_match''"
    and "first_quoted (strip txt) = Some payload"
    and "parts = split_on (CHR ''~'') payload"
    and "30 \<le> length parts"
  shows "(decode_realtime ticker expd now_text txt = None) =
           (list_ex (\<lambda>i. i < length parts \<and> parts ! i \<noteq> [] \<and> py_float (parts ! i) = None)
              float_positions
            \<or> list_ex (\<lambda>i. parts ! i \<noteq> [] \<and> py_int (parts ! i) = None) int_positions)
         \<and> (\<forall>r. decode_realtime ticker expd now_text txt = Some r \<longrightarrow>
               converted_float (parts ! 3) (current_price r)
             \<and> converted_float (parts ! 4) (yesterday_close r)
             \<and> converted_float (parts ! 5) (rt_open r)
             \<and> converted_int (parts ! 6) (volume r)
             \<and> volume_shares r = volume r * 100
             \<and> converted_float (parts ! 9) (bid1_price r)
             \<and> converted_int (parts ! 10) (bid1_volume r)
             \<and> converted_float (parts ! 19) (ask1_price r)
             \<and> converted_int (parts ! 20) (ask1_volume r)
             \<and> converted_float_at parts 31 (change r)
             \<and> converted_float_at parts 32 (change_percent r)
             \<and> converted_float_at parts 33 (high r)
             \<and> converted_float_at parts 34 (low r)
             \<and> converted_float_at parts 37 (turnover r))"
proof -
  have d: "decode_realtime ticker expd now_text txt = build_stock_data ticker expd now_text parts"
    using assms by (simp add: decode_realtime_parts)
  have n: "(build_stock_data ticker expd now_text parts = None) =
           (list_ex (\<lambda>i. i < length parts \<and> parts ! i \<noteq> [] \<and> py_float (parts ! i) = None)
              float_positions
            \<or> list_ex (\<lambda>i. parts ! i \<noteq> [] \<and> py_int (parts ! i) = None) int_positions)"
  proof -
    have len: "3 < length parts" "4 < length parts" "5 < length parts" "9 < length parts"
      "19 < length parts"
      using assms(5) by simp_all
    show ?thesis
      unfolding build_stock_data_None float_field_None int_field_None float_field_at_None
        float_positions_def int_positions_def
      by (simp add: len disj_ac)
  qed
  show ?thesis
    unfolding d n
    using build_stock_data_Some [of ticker expd now_text parts]
    by (simp add: float_field_Some int_field_Some float_field_at_Some)
qed

theorem delimited_numeric_fields_witness:
  "strip (quoted_response sample_empty_payload) \<noteq> []
   \<and> \<not> contains (strip (quoted_response sample_empty_payload)) ''pv_none_match''
   \<and> first_quoted (strip (quoted_response sample_empty_payload)) = Some sample_empty_payload
   \<and> 30 \<le> length (split_on (CHR ''~'') sample_empty_payload)
   \<and> split_on (CHR ''~'') sample_empty_payload ! 5 = []
   \<and> decode_realtime ''000001'' sample_expected sample_now_text
        (quoted_response sample_empty_payload) = Some sample_empty_result
   \<and> converted_float (split_on (CHR ''~'') sample_empty_payload ! 5) (rt_open sample_empty_result)
   \<and> rt_open sample_empty_result = Fin 0"
proof -
  note h = sample_response_facts
  from delimited_numeric_fields [OF h(1) h(2) h(3) refl h(4), of "''000001''" sample_expected
      sample_now_text] decode_sample_empty
  have "converted_float (split_on (CHR ''~'') sample_empty_payload ! 5)
          (rt_open sample_empty_result)"
    by simp
  moreover have "rt_open sample_empty_result = Fin 0"
    by (simp add: sample_empty_result_def)
  ultimately show ?thesis
    using h decode_sample_empty by simp
qed

text \<open>
  Claim C9. When the text between the first two double quotes splits on the tilde
  into fewer than 30 fields, the decoder returns no result, whatever the fields
  hold; so do both clients on such a response.
\<close>

theorem short_payload_fails:
  assumes "first_quoted (strip txt) = Some payload"
    and "length (split_on (CHR ''~'') payload) < 30"
    and "net (base_url @ format_symbol ticker) = TextBody txt"
  shows "decode_realtime ticker expd now_text txt = None
       \<and> get_realtime_data now_text net ticker ex = None
       \<and> get_realtime_data2 expected_prices now_text net ticker ex = None"
  using assms
  by (simp add: decode_realtime_def get_realtime_data_def get_realtime_data2_def
      realtime_fetch_def Let_def)

theorem short_payload_fails_witness:
  "first_quoted (strip (quoted_response sample_short_payload)) = Some sample_short_payload
   \<and> length (split_on (CHR ''~'') sample_short_payload) < 30
   \<and> get_realtime_data sample_now_text (\<lambda>u. TextBody (quoted_response sample_short_payload))
        ''000001'' None = None"
proof -
  have h1: "first_quoted (strip (quoted_response sample_short_payload)) = Some sample_short_payload"
    by (simp add: realtime_eval sample_short_payload_def)
  have h2: "length (split_on (CHR ''~'') sample_short_payload) < 30"
    by (simp add: sample_short_payload_def)
  show ?thesis
    using h1 h2
      short_payload_fails [OF h1 h2,
        of "\<lambda>u. TextBody (quoted_response sample_short_payload)" "''000001''"]
    by simp
qed

end
